theory Spec2Isabelle
  imports Main
begin

section \<open>Front-end widgets of the portfolio site: a shallow embedding\<close>

text \<open>
  The development follows the four script files of the site: the blog loader and the
  Scholar statistics widget (\<^verbatim>\<open>assets/js/blog.js\<close>), the chat widget, the
  application controller and the OCR tool (\<^verbatim>\<open>assets/js/app.js\<close>).

  Conventions of the embedding.
  \<^item> A JavaScript string is a \<^typ>\<open>string\<close>; a character stands for one code unit below
    256. \<^verbatim>\<open>trim\<close>, \<^verbatim>\<open>toLowerCase\<close> and the regular expression classes are
    written out for these code units.
  \<^item> A JavaScript number that the scripts use as a count, an index or a time in
    milliseconds is an \<^typ>\<open>int\<close>; \<^verbatim>\<open>NaN\<close> is \<^term>\<open>None\<close> of \<^typ>\<open>int option\<close>.
  \<^item> \<^verbatim>\<open>undefined\<close> and \<^verbatim>\<open>null\<close> of an optional field are \<^term>\<open>None\<close>.
  \<^item> An exception is a value of type \<open>error\<close>; a function that can throw returns
    a \<open>result\<close>, and where the state reached before the throw matters it returns the
    state next to the result.
  \<^item> \<^verbatim>\<open>document.getElementById\<close> returning \<^verbatim>\<open>null\<close> is an element field that is
    \<^term>\<open>None\<close>: every null check of the scripts is a branch of the model.
  \<^item> \<^verbatim>\<open>localStorage\<close> is a finite map from keys to strings that accepts every
    write, together with the list of keys handed to \<^verbatim>\<open>getItem\<close>, \<^verbatim>\<open>setItem\<close> and
    \<^verbatim>\<open>removeItem\<close> so far.
  \<^item> \<^verbatim>\<open>console\<close> output is not part of the state.
\<close>

subsection \<open>Errors and results\<close>

datatype error =
    HttpError int
  | InvalidFormat
  | NetworkError
  | SyntaxError
  | TypeError
  | ApiError string

datatype 'a result = Returned 'a | Threw error

subsection \<open>Strings\<close>

definition isWhiteSpace :: "char \<Rightarrow> bool" where
  "isWhiteSpace c = ((of_char c :: nat) \<in> {9, 10, 11, 12, 13, 32, 160})"

definition trim :: "string \<Rightarrow> string" where
  "trim s = rev (dropWhile isWhiteSpace (rev (dropWhile isWhiteSpace s)))"

definition lowerChar :: "char \<Rightarrow> char" where
  "lowerChar c =
     (let n = (of_char c :: nat)
      in if (65 \<le> n \<and> n \<le> 90) \<or> (192 \<le> n \<and> n \<le> 222 \<and> n \<noteq> 215)
         then char_of (n + 32) else c)"

definition toLowerCase :: "string \<Rightarrow> string" where
  "toLowerCase s = map lowerChar s"

definition startsWith :: "string \<Rightarrow> string \<Rightarrow> bool" where
  "startsWith s p = (take (length p) s = p)"

fun includes_str :: "string \<Rightarrow> string \<Rightarrow> bool" where
  "includes_str [] p = (p = [])"
| "includes_str (c # cs) p = (startsWith (c # cs) p \<or> includes_str cs p)"

subsection \<open>Numbers and their decimal text\<close>

text \<open>
  \<^verbatim>\<open>Number.prototype.toString\<close> on an integer, and \<^verbatim>\<open>parseInt\<close> with no radix
  argument: leading white space is skipped, a sign is read, a prefix \<^verbatim>\<open>0x\<close> selects
  radix 16, and the longest run of digits is the value; no digit at all gives
  \<^verbatim>\<open>NaN\<close>.
\<close>

definition digitChar :: "nat \<Rightarrow> char" where
  "digitChar d = char_of (48 + d)"

function natToString :: "nat \<Rightarrow> string" where
  "natToString n = (if n < 10 then [digitChar n] else natToString (n div 10) @ [digitChar (n mod 10)])"
  by pat_completeness auto
termination
  by (relation "measure (\<lambda>n. n)") auto

definition intToString :: "int \<Rightarrow> string" where
  "intToString i = (if i < 0 then CHR ''-'' # natToString (nat (- i)) else natToString (nat i))"

definition numberToString :: "int option \<Rightarrow> string" where
  "numberToString v = (case v of None \<Rightarrow> ''NaN'' | Some i \<Rightarrow> intToString i)"

definition digitValue :: "nat \<Rightarrow> char \<Rightarrow> nat option" where
  "digitValue radix c =
     (let n = (of_char c :: nat);
          v = (if 48 \<le> n \<and> n \<le> 57 then n - 48
               else if 97 \<le> n \<and> n \<le> 122 then n - 87
               else if 65 \<le> n \<and> n \<le> 90 then n - 55
               else 36)
      in if v < radix then Some v else None)"

fun readDigits :: "nat \<Rightarrow> nat \<Rightarrow> string \<Rightarrow> nat" where
  "readDigits radix acc [] = acc"
| "readDigits radix acc (c # cs) =
     (case digitValue radix c of
        None \<Rightarrow> acc
      | Some v \<Rightarrow> readDigits radix (acc * radix + v) cs)"

definition hasDigit :: "nat \<Rightarrow> string \<Rightarrow> bool" where
  "hasDigit radix s = (case s of [] \<Rightarrow> False | c # _ \<Rightarrow> digitValue radix c \<noteq> None)"

definition parseInt :: "string \<Rightarrow> int option" where
  "parseInt s =
     (let t = dropWhile isWhiteSpace s;
          neg = (case t of [] \<Rightarrow> False | c # _ \<Rightarrow> c = CHR ''-'');
          u = (case t of [] \<Rightarrow> [] | c # cs \<Rightarrow> if c = CHR ''-'' \<or> c = CHR ''+'' then cs else t);
          hex = (take 2 u = ''0x'' \<or> take 2 u = ''0X'');
          radix = (if hex then 16 else 10);
          z = (if hex then drop 2 u else u)
      in if hasDigit radix z
         then Some ((if neg then - 1 else 1) * int (readDigits radix 0 z))
         else None)"

text \<open>
  The remainder operator \<^verbatim>\<open>%\<close> on integers takes the sign of the dividend; a zero
  divisor and a \<^verbatim>\<open>NaN\<close> operand give \<^verbatim>\<open>NaN\<close>.
\<close>

definition jsRem :: "int option \<Rightarrow> int \<Rightarrow> int option" where
  "jsRem a n =
     (case a of
        None \<Rightarrow> None
      | Some x \<Rightarrow> if n = 0 then None else Some (sgn x * (\<bar>x\<bar> mod \<bar>n\<bar>)))"

text \<open>
  \<^verbatim>\<open>Array.prototype.slice(start, end)\<close>: a negative bound counts from the end, and
  both bounds are clamped to the array.
\<close>

definition sliceBound :: "int \<Rightarrow> int \<Rightarrow> nat" where
  "sliceBound n k = nat (if k < 0 then max (n + k) 0 else min k n)"

definition slice :: "'a list \<Rightarrow> int \<Rightarrow> int \<Rightarrow> 'a list" where
  "slice xs a b =
     (let n = int (length xs); from = sliceBound n a; to = sliceBound n b
      in take (to - from) (drop from xs))"

definition sliceFrom :: "'a list \<Rightarrow> int \<Rightarrow> 'a list" where
  "sliceFrom xs a = drop (sliceBound (int (length xs)) a) xs"

subsection \<open>JSON values\<close>

text \<open>
  A value read from JSON text. An object is the list of its properties, each key once.
  A JavaScript value that may be \<^verbatim>\<open>undefined\<close> is an optional JSON value.
\<close>

datatype json =
    JNull
  | JBool bool
  | JNum int
  | JStr string
  | JArr "json list"
  | JObj "(string \<times> json) list"

definition truthy :: "json option \<Rightarrow> bool" where
  "truthy v =
     (case v of
        None \<Rightarrow> False
      | Some JNull \<Rightarrow> False
      | Some (JBool b) \<Rightarrow> b
      | Some (JNum n) \<Rightarrow> n \<noteq> 0
      | Some (JStr s) \<Rightarrow> s \<noteq> []
      | Some (JArr xs) \<Rightarrow> True
      | Some (JObj kvs) \<Rightarrow> True)"

text \<open>
  Reading a named property \<^verbatim>\<open>v.k\<close> (for the names the scripts read: none of them
  is a built-in property of strings, numbers or arrays): \<^verbatim>\<open>undefined\<close> and
  \<^verbatim>\<open>null\<close> throw a \<^verbatim>\<open>TypeError\<close>. The optional chain \<^verbatim>\<open>v?.k\<close> gives
  \<^verbatim>\<open>undefined\<close> instead.
\<close>

definition getProp :: "json option \<Rightarrow> string \<Rightarrow> json option result" where
  "getProp v k =
     (case v of
        None \<Rightarrow> Threw TypeError
      | Some JNull \<Rightarrow> Threw TypeError
      | Some (JObj kvs) \<Rightarrow> Returned (map_of kvs k)
      | Some _ \<Rightarrow> Returned None)"

definition optProp :: "json option \<Rightarrow> string \<Rightarrow> json option" where
  "optProp v k =
     (case v of
        None \<Rightarrow> None
      | Some JNull \<Rightarrow> None
      | Some (JObj kvs) \<Rightarrow> map_of kvs k
      | Some _ \<Rightarrow> None)"

definition isArray :: "json option \<Rightarrow> bool" where
  "isArray v = (case v of Some (JArr xs) \<Rightarrow> True | _ \<Rightarrow> False)"

definition elem0 :: "json option \<Rightarrow> json option" where
  "elem0 v = (case v of Some (JArr (x # xs)) \<Rightarrow> Some x | _ \<Rightarrow> None)"

text \<open>
  What the browser provides and the scripts only call: the JSON codec, the ISO text of
  a time, and the conversion of a string or an array to a number.
\<close>

record platform =
  JSON_parse :: "string \<Rightarrow> json option"
  JSON_stringify :: "json \<Rightarrow> string"
  toISOString :: "int \<Rightarrow> string"
  StringToNumber :: "string \<Rightarrow> int option"
  ArrayToNumber :: "json list \<Rightarrow> int option"

definition toNumber :: "platform \<Rightarrow> json option \<Rightarrow> int option" where
  "toNumber P v =
     (case v of
        None \<Rightarrow> None
      | Some JNull \<Rightarrow> Some 0
      | Some (JBool b) \<Rightarrow> Some (if b then 1 else 0)
      | Some (JNum n) \<Rightarrow> Some n
      | Some (JStr s) \<Rightarrow> StringToNumber P s
      | Some (JArr xs) \<Rightarrow> ArrayToNumber P xs
      | Some (JObj kvs) \<Rightarrow> None)"

text \<open>An object literal handed to \<^verbatim>\<open>JSON.stringify\<close>: undefined properties are left out.\<close>

definition object :: "(string \<times> json option) list \<Rightarrow> json" where
  "object kvs = JObj (concat (map (\<lambda>(k, v). case v of None \<Rightarrow> [] | Some x \<Rightarrow> [(k, x)]) kvs))"

subsection \<open>Local storage\<close>

record store =
  items :: "string \<rightharpoonup> string"
  accessed :: "string list"

definition getItem :: "string \<Rightarrow> store \<Rightarrow> string option \<times> store" where
  "getItem k s = (items s k, s\<lparr>accessed := accessed s @ [k]\<rparr>)"

definition setItem :: "string \<Rightarrow> string \<Rightarrow> store \<Rightarrow> store" where
  "setItem k v s = s\<lparr>items := (items s)(k \<mapsto> v), accessed := accessed s @ [k]\<rparr>"

definition removeItem :: "string \<Rightarrow> store \<Rightarrow> store" where
  "removeItem k s = s\<lparr>items := (items s)(k := None), accessed := accessed s @ [k]\<rparr>"

text \<open>The keys an operation has handed to the storage between two states.\<close>

definition touched :: "store \<Rightarrow> store \<Rightarrow> string list" where
  "touched s s' = drop (length (accessed s)) (accessed s')"

subsection \<open>Network\<close>

text \<open>
  The outcome of one \<^verbatim>\<open>fetch\<close>: the promise rejects, or it resolves to a response
  whose body \<^verbatim>\<open>json()\<close> either rejects (\<^term>\<open>None\<close>) or turns into a value.
\<close>

record 'b response =
  ok :: bool
  http_status :: int
  body :: "'b option"

datatype 'b fetched = Rejected | Resolved "'b response"

record request =
  url :: string
  http_method :: string
  payload :: "json option"

subsection \<open>Blog posts and their filter\<close>

text \<open>
  A post is a row of the sheet behind the blog endpoint. Its fields are free text; a
  field that the row lacks is \<^term>\<open>None\<close>.
\<close>

record post =
  idea :: "string option"
  status :: "string option"
  name :: "string option"
  Final_Image :: "string option"
  image1 :: "string option"
  image2 :: "string option"
  image3 :: "string option"
  image4 :: "string option"

definition VALID_STATUSES :: "string list" where
  "VALID_STATUSES = [''ready'', ''posted'']"

definition POSTS_PER_PAGE :: int where
  "POSTS_PER_PAGE = 6"

definition ROTATION_INTERVAL :: int where
  "ROTATION_INTERVAL = 7200000"

text \<open>
  The callback of \<^verbatim>\<open>api.filterPosts\<close>. \<^verbatim>\<open>!post.idea\<close> holds for a missing field and
  for the empty string.
\<close>

definition keepPost :: "post \<Rightarrow> bool" where
  "keepPost p =
     (case idea p of
        None \<Rightarrow> False
      | Some i \<Rightarrow>
          if i = [] \<or> trim i = [] then False
          else
            let st = trim (toLowerCase (case status p of None \<Rightarrow> [] | Some s \<Rightarrow> s))
            in st \<in> set VALID_STATUSES)"

definition filterPosts :: "post list \<Rightarrow> post list" where
  "filterPosts posts = filter keepPost posts"

text \<open>
  The reading of the filter in words: the idea is present and not empty after trimming,
  and the status (the empty string when missing), lowercased and trimmed, is
  \<^verbatim>\<open>ready\<close> or \<^verbatim>\<open>posted\<close>.
\<close>

definition ideaNonEmpty :: "post \<Rightarrow> bool" where
  "ideaNonEmpty p = (\<exists>i. idea p = Some i \<and> trim i \<noteq> [])"

definition normalStatus :: "post \<Rightarrow> string" where
  "normalStatus p = trim (toLowerCase (case status p of None \<Rightarrow> [] | Some s \<Rightarrow> s))"

lemma trim_Nil: "trim [] = []"
  by (simp add: trim_def)

lemma keepPost_iff:
  "keepPost p \<longleftrightarrow> ideaNonEmpty p \<and> (normalStatus p = ''ready'' \<or> normalStatus p = ''posted'')"
  by (cases "idea p")
     (auto simp: keepPost_def ideaNonEmpty_def normalStatus_def VALID_STATUSES_def trim_Nil Let_def)

text \<open>
  Claim C8. For every array of posts, \<^verbatim>\<open>api.filterPosts\<close> returns exactly the posts
  whose idea is present and non-empty after trimming and whose status, lowercased and
  trimmed (a missing status counting as the empty string), is \<^verbatim>\<open>ready\<close> or
  \<^verbatim>\<open>posted\<close>, in their original order.
\<close>

theorem filterPosts_exact:
  "filterPosts posts =
     filter (\<lambda>p. ideaNonEmpty p \<and> (normalStatus p = ''ready'' \<or> normalStatus p = ''posted'')) posts"
  unfolding filterPosts_def by (rule filter_cong) (simp_all add: keepPost_iff)


subsection \<open>Blog utilities\<close>

definition newline :: char where
  "newline = char_of (10 :: nat)"

text \<open>
  Replacing every maximal run of characters of a class by one character, as
  \<^verbatim>\<open>replace(/\s+/g, '-')\<close> and \<^verbatim>\<open>replace(/-+/g, '-')\<close> do.
\<close>

function replaceRuns :: "(char \<Rightarrow> bool) \<Rightarrow> char \<Rightarrow> string \<Rightarrow> string" where
  "replaceRuns p d [] = []"
| "replaceRuns p d (c # cs) =
     (if p c then d # replaceRuns p d (dropWhile p cs) else c # replaceRuns p d cs)"
  by pat_completeness auto
termination
  by (relation "measure (\<lambda>(p, d, s). length s)")
     (auto simp: length_dropWhile_le le_imp_less_Suc)

text \<open>\<^verbatim>\<open>split(/\n\n+/)\<close>: the pieces between runs of two or more line feeds.\<close>

function splitParagraphs :: "string \<Rightarrow> string \<Rightarrow> string list" where
  "splitParagraphs cur [] = [cur]"
| "splitParagraphs cur (c # cs) =
     (if c = newline \<and> (case cs of [] \<Rightarrow> False | c' # _ \<Rightarrow> c' = newline)
      then cur # splitParagraphs [] (dropWhile (\<lambda>x. x = newline) cs)
      else splitParagraphs (cur @ [c]) cs)"
  by pat_completeness auto
termination
  by (relation "measure (\<lambda>(cur, s). length s)")
     (auto simp: length_dropWhile_le le_imp_less_Suc)

text \<open>
  The first match of a pattern \<^verbatim>\<open>pre([class]+)suf\<close> in a text, giving the captured
  group. The class never contains the first character of the suffix in the patterns
  of the scripts, so the group is the whole run of class characters after the prefix.
\<close>

fun matchGroup :: "(char \<Rightarrow> bool) \<Rightarrow> string \<Rightarrow> string \<Rightarrow> string \<Rightarrow> string option" where
  "matchGroup cls pre suf [] = None"
| "matchGroup cls pre suf (c # cs) =
     (let rest = drop (length pre) (c # cs); run = takeWhile cls rest
      in if startsWith (c # cs) pre \<and> run \<noteq> [] \<and> startsWith (dropWhile cls rest) suf
         then Some run
         else matchGroup cls pre suf cs)"

definition idChar :: "char \<Rightarrow> bool" where
  "idChar c =
     (let n = (of_char c :: nat)
      in (97 \<le> n \<and> n \<le> 122) \<or> (65 \<le> n \<and> n \<le> 90) \<or> (48 \<le> n \<and> n \<le> 57)
         \<or> c = CHR ''_'' \<or> c = CHR ''-'')"

definition isDigit :: "char \<Rightarrow> bool" where
  "isDigit c = (let n = (of_char c :: nat) in 48 \<le> n \<and> n \<le> 57)"

definition driveFileId :: "string \<Rightarrow> string option" where
  "driveFileId u =
     (case matchGroup idChar ''/file/d/'' [] u of
        Some i \<Rightarrow> Some i
      | None \<Rightarrow>
         (case matchGroup idChar ''/d/'' ''/view'' u of
            Some i \<Rightarrow> Some i
          | None \<Rightarrow>
             (case matchGroup idChar ''id='' [] u of
                Some i \<Rightarrow> Some i
              | None \<Rightarrow> matchGroup idChar ''/open?id='' [] u)))"

definition convertDriveUrl :: "string \<Rightarrow> string option" where
  "convertDriveUrl u0 =
     (if u0 = [] \<or> trim u0 = [] then None
      else
        let u = trim u0
        in if includes_str u ''drive.google.com/uc?'' then Some u
           else
             (case driveFileId u of
                Some i \<Rightarrow> Some (''https://drive.google.com/thumbnail?id='' @ i @ ''&sz=w800'')
              | None \<Rightarrow> if startsWith u ''http'' then Some u else None))"

text \<open>\<^verbatim>\<open>post[`image${n}`]\<close> for a run of digits \<open>n\<close>.\<close>

definition imageField :: "post \<Rightarrow> string \<Rightarrow> string option" where
  "imageField p n =
     (if n = ''1'' then image1 p
      else if n = ''2'' then image2 p
      else if n = ''3'' then image3 p
      else if n = ''4'' then image4 p
      else None)"

text \<open>The test \<^verbatim>\<open>imgUrl && imgUrl.trim()\<close> followed by the conversion.\<close>

definition convertField :: "string option \<Rightarrow> string option" where
  "convertField f =
     (case f of
        None \<Rightarrow> None
      | Some u \<Rightarrow> if u \<noteq> [] \<and> trim u \<noteq> [] then convertDriveUrl u else None)"

fun firstImage :: "string option list \<Rightarrow> string" where
  "firstImage [] = ''../images/default-blog.jpg''"
| "firstImage (f # fs) = (case convertField f of Some u \<Rightarrow> u | None \<Rightarrow> firstImage fs)"

definition getPostImage :: "post \<Rightarrow> string" where
  "getPostImage p =
     (let finalImage = (case Final_Image p of None \<Rightarrow> [] | Some f \<Rightarrow> if f = [] then [] else trim f);
          direct = (if finalImage \<noteq> [] \<and> startsWith finalImage ''http''
                    then convertDriveUrl finalImage else None);
          named = (if finalImage \<noteq> []
                   then (case matchGroup isDigit ''image'' [] (toLowerCase finalImage) of
                           None \<Rightarrow> None
                         | Some n \<Rightarrow> convertField (imageField p n))
                   else None)
      in case direct of
           Some u \<Rightarrow> u
         | None \<Rightarrow>
            (case named of
               Some u \<Rightarrow> u
             | None \<Rightarrow> firstImage [image1 p, image2 p, image3 p, image4 p]))"

definition getExcerpt :: "string option \<Rightarrow> string" where
  "getExcerpt i =
     (case i of
        None \<Rightarrow> []
      | Some t \<Rightarrow>
          if t = [] then []
          else
            let paragraphs = splitParagraphs [] t;
                contentStart = (if length paragraphs > 1 then 1 else 0);
                excerpt = (if paragraphs ! contentStart \<noteq> [] then paragraphs ! contentStart
                           else paragraphs ! 0)
            in if length excerpt > 200 then trim (take 200 excerpt) @ ''...''
               else trim excerpt)"

definition getTitle :: "post \<Rightarrow> string" where
  "getTitle p =
     (let fromIdea =
            (case idea p of
               None \<Rightarrow> ''Untitled Post''
             | Some i \<Rightarrow>
                 if i = [] then ''Untitled Post''
                 else
                   let firstLine = trim (takeWhile (\<lambda>c. c \<noteq> newline) i)
                   in if length firstLine > 0 \<and> length firstLine < 200 then firstLine
                      else ''Untitled Post'')
      in case name p of
           None \<Rightarrow> fromIdea
         | Some n \<Rightarrow> if n \<noteq> [] \<and> trim n \<noteq> [] \<and> length n < 200 then trim n else fromIdea)"

definition slugChar :: "char \<Rightarrow> bool" where
  "slugChar c =
     (let n = (of_char c :: nat)
      in (97 \<le> n \<and> n \<le> 122) \<or> (48 \<le> n \<and> n \<le> 57) \<or> isWhiteSpace c \<or> c = CHR ''-'')"

definition createSlug :: "string \<Rightarrow> string" where
  "createSlug title =
     take 100
       (replaceRuns (\<lambda>c. c = CHR ''-'') CHR ''-''
         (replaceRuns isWhiteSpace CHR ''-'' (filter slugChar (toLowerCase title))))"

definition optStr :: "string option \<Rightarrow> json option" where
  "optStr v = map_option JStr v"

text \<open>
  \<^verbatim>\<open>utils.storePostData\<close>. \<open>now\<close> is the reading of \<^verbatim>\<open>Date.now()\<close>.
\<close>

definition storePostData :: "platform \<Rightarrow> int \<Rightarrow> post \<Rightarrow> string \<Rightarrow> store \<Rightarrow> store" where
  "storePostData P now p slug s =
     (let postData = object
            [(''title'', Some (JStr (getTitle p))),
             (''content'', optStr (idea p)),
             (''image'', Some (JStr (getPostImage p))),
             (''status'', optStr (status p)),
             (''slug'', Some (JStr slug)),
             (''timestamp'', Some (JNum now))]
      in setItem (''blog_post_'' @ slug) (JSON_stringify P postData) s)"


subsection \<open>The blog page\<close>

text \<open>
  What the scripts write into the page. The markup of a post card is determined by the
  strings spliced into its template, so a card is the record of these strings; the same
  holds for the articles of the homepage preview and for the pagination list.
\<close>

record card =
  card_slug :: string
  card_statusClass :: string
  card_statusLabel :: string
  card_image :: string
  card_title :: string
  card_excerpt :: string

record article =
  article_slug :: string
  article_image :: string
  article_title :: string
  article_excerpt :: string

datatype page_item =
    PrevLink int
  | PrevDisabled
  | PageLink int
  | ActivePage int
  | Ellipsis
  | NextLink int
  | NextDisabled

record grid_el =
  grid_html :: "card list"
  grid_display :: string

record pagination_el =
  pag_html :: "page_item list"
  pag_display :: string

text \<open>
  The module variables of \<^verbatim>\<open>blog.js\<close>, the elements it looks up by id (an element
  the page lacks is \<^term>\<open>None\<close>; for an element of which only the \<^verbatim>\<open>display\<close> style
  or the text is written, the field holds that string), and the storage.
\<close>

record blog =
  currentPage :: int
  totalPages :: int
  allValidPosts :: "post list"
  blog_posts_grid :: "grid_el option"
  loading_indicator :: "string option"
  no_posts_message :: "string option"
  pagination_section :: "pagination_el option"
  blog_posts_section_scrolls :: "nat option"
  error_container :: "string option"
  error_text :: "string option"
  latest_posts :: "article list option"
  localStorage :: store

definition setDisplay :: "string \<Rightarrow> string option \<Rightarrow> string option" where
  "setDisplay d el = map_option (\<lambda>_. d) el"

definition ceilDiv :: "int \<Rightarrow> int \<Rightarrow> int" where
  "ceilDiv a b = - ((- a) div b)"

definition postCard :: "post \<Rightarrow> string \<Rightarrow> card" where
  "postCard p st =
     \<lparr>card_slug = createSlug (getTitle p),
      card_statusClass = (if st = ''posted'' then ''status-posted'' else ''status-review''),
      card_statusLabel = (if st = ''posted'' then ''Published'' else ''New''),
      card_image = getPostImage p,
      card_title = getTitle p,
      card_excerpt = getExcerpt (idea p)\<rparr>"

text \<open>
  \<^verbatim>\<open>ui.createPostCard\<close>: \<^verbatim>\<open>post.status.toLowerCase()\<close> throws on a post without
  status, before the post data is stored.
\<close>

definition createPostCard :: "platform \<Rightarrow> int \<Rightarrow> post \<Rightarrow> int \<Rightarrow> store \<Rightarrow> card result \<times> store" where
  "createPostCard P now p index s =
     (case status p of
        None \<Rightarrow> (Threw TypeError, s)
      | Some st \<Rightarrow>
          (Returned (postCard p (toLowerCase st)),
           storePostData P now p (createSlug (getTitle p)) s))"

text \<open>\<^verbatim>\<open>postsToDisplay.map((post, index) => this.createPostCard(post, startIndex + index))\<close>\<close>

fun mapCards :: "platform \<Rightarrow> int \<Rightarrow> post list \<Rightarrow> int \<Rightarrow> store \<Rightarrow> card list result \<times> store" where
  "mapCards P now [] index s = (Returned [], s)"
| "mapCards P now (p # ps) index s =
     (case createPostCard P now p index s of
        (Threw e, s') \<Rightarrow> (Threw e, s')
      | (Returned c, s') \<Rightarrow>
          (case mapCards P now ps (index + 1) s' of
             (Threw e, s'') \<Rightarrow> (Threw e, s'')
           | (Returned cs, s'') \<Rightarrow> (Returned (c # cs), s'')))"

definition pageItems :: "int \<Rightarrow> int \<Rightarrow> page_item list" where
  "pageItems cur tot =
     (let maxPageButtons = 5;
          startPage0 = max 1 (cur - maxPageButtons div 2);
          endPage = min tot (startPage0 + maxPageButtons - 1);
          startPage = (if endPage - startPage0 < maxPageButtons - 1
                       then max 1 (endPage - maxPageButtons + 1) else startPage0)
      in [if cur > 1 then PrevLink (cur - 1) else PrevDisabled]
         @ (if startPage > 1
            then PageLink 1 # (if startPage > 2 then [Ellipsis] else [])
            else [])
         @ map (\<lambda>i. if i = cur then ActivePage i else PageLink i) [startPage..endPage]
         @ (if endPage < tot
            then (if endPage < tot - 1 then [Ellipsis] else []) @ [PageLink tot]
            else [])
         @ [if cur < tot then NextLink (cur + 1) else NextDisabled])"

definition renderPagination :: "blog \<Rightarrow> blog" where
  "renderPagination b =
     (case pagination_section b of
        None \<Rightarrow> b
      | Some pg \<Rightarrow>
          if totalPages b \<le> 1
          then b\<lparr>pagination_section := Some (pg\<lparr>pag_display := ''none''\<rparr>)\<rparr>
          else b\<lparr>pagination_section :=
                  Some \<lparr>pag_html = pageItems (currentPage b) (totalPages b),
                        pag_display = ''block''\<rparr>\<rparr>)"

text \<open>\<^verbatim>\<open>ui.renderPosts(posts, page)\<close>; the caller passes 1 where the script omits the page.\<close>

definition renderPosts :: "platform \<Rightarrow> int \<Rightarrow> post list \<Rightarrow> int \<Rightarrow> blog \<Rightarrow> unit result \<times> blog" where
  "renderPosts P now posts page b =
     (case blog_posts_grid b of
        None \<Rightarrow> (Returned (), b)
      | Some container \<Rightarrow>
          let b1 = b\<lparr>loading_indicator := setDisplay ''none'' (loading_indicator b)\<rparr>
          in if length posts = 0
             then (Returned (),
                   b1\<lparr>no_posts_message := setDisplay ''block'' (no_posts_message b1),
                      pagination_section :=
                        map_option (\<lambda>pg. pg\<lparr>pag_display := ''none''\<rparr>) (pagination_section b1)\<rparr>)
             else
               let tot = ceilDiv (int (length posts)) POSTS_PER_PAGE;
                   cur = min page tot;
                   b2 = b1\<lparr>allValidPosts := posts, totalPages := tot, currentPage := cur\<rparr>;
                   startIndex = (cur - 1) * POSTS_PER_PAGE;
                   endIndex = startIndex + POSTS_PER_PAGE;
                   postsToDisplay = slice posts startIndex endIndex
               in case mapCards P now postsToDisplay startIndex (localStorage b2) of
                    (Threw e, s') \<Rightarrow> (Threw e, b2\<lparr>localStorage := s'\<rparr>)
                  | (Returned cards, s') \<Rightarrow>
                      let b3 = b2\<lparr>localStorage := s',
                                  blog_posts_grid := Some \<lparr>grid_html = cards, grid_display = ''flex''\<rparr>\<rparr>;
                          b4 = renderPagination b3
                      in (Returned (),
                          if page > 1
                          then b4\<lparr>blog_posts_section_scrolls :=
                                    map_option Suc (blog_posts_section_scrolls b4)\<rparr>
                          else b4))"

definition showError :: "string \<Rightarrow> blog \<Rightarrow> blog" where
  "showError message b =
     (let b1 = b\<lparr>loading_indicator := setDisplay ''none'' (loading_indicator b)\<rparr>
      in if error_container b1 \<noteq> None \<and> error_text b1 \<noteq> None
         then b1\<lparr>error_text := Some message, error_container := Some ''block''\<rparr>
         else b1)"


text \<open>
  \<^verbatim>\<open>ui.renderHomepagePosts(posts)\<close>. \<^verbatim>\<open>getItem(k) || '0'\<close> replaces a missing and an
  empty value by \<^verbatim>\<open>'0'\<close>. A comparison with \<^verbatim>\<open>NaN\<close> is false. Reading
  \<^verbatim>\<open>posts[i]\<close> outside the array gives \<^verbatim>\<open>undefined\<close>, and \<^verbatim>\<open>utils.getTitle\<close>
  throws on it.
\<close>

definition orZero :: "string option \<Rightarrow> string" where
  "orZero v = (case v of None \<Rightarrow> ''0'' | Some t \<Rightarrow> if t = [] then ''0'' else t)"

definition elementAt :: "'a list \<Rightarrow> int option \<Rightarrow> 'a option" where
  "elementAt xs i =
     (case i of
        None \<Rightarrow> None
      | Some k \<Rightarrow> if 0 \<le> k \<and> k < int (length xs) then Some (xs ! nat k) else None)"

definition postArticle :: "post \<Rightarrow> article" where
  "postArticle p =
     \<lparr>article_slug = createSlug (getTitle p),
      article_image = getPostImage p,
      article_title = getTitle p,
      article_excerpt = getExcerpt (idea p)\<rparr>"

fun mapArticles :: "platform \<Rightarrow> int \<Rightarrow> post option list \<Rightarrow> store \<Rightarrow> article list result \<times> store" where
  "mapArticles P now [] s = (Returned [], s)"
| "mapArticles P now (p # ps) s =
     (case p of
        None \<Rightarrow> (Threw TypeError, s)
      | Some q \<Rightarrow>
          (case mapArticles P now ps (storePostData P now q (createSlug (getTitle q)) s) of
             (Threw e, s') \<Rightarrow> (Threw e, s')
           | (Returned as, s') \<Rightarrow> (Returned (postArticle q # as), s')))"

definition renderHomepagePosts :: "platform \<Rightarrow> int \<Rightarrow> post list \<Rightarrow> blog \<Rightarrow> unit result \<times> blog" where
  "renderHomepagePosts P now posts b =
     (case latest_posts b of
        None \<Rightarrow> (Returned (), b)
      | Some container \<Rightarrow>
          let (v1, s1) = getItem ''blog_rotation_index'' (localStorage b);
              rotationIndex0 = parseInt (orZero v1);
              (v2, s2) = getItem ''blog_last_rotation'' s1;
              lastRotation = parseInt (orZero v2);
              n = int (length posts);
              rotate = (case lastRotation of None \<Rightarrow> False | Some t \<Rightarrow> now - t > ROTATION_INTERVAL);
              rotationIndex = (if rotate then jsRem (map_option (\<lambda>r. r + 6) rotationIndex0) n
                               else rotationIndex0);
              s3 = (if rotate
                    then setItem ''blog_last_rotation'' (intToString now)
                           (setItem ''blog_rotation_index'' (numberToString rotationIndex) s2)
                    else s2);
              displayPosts =
                map (\<lambda>i. elementAt posts (jsRem (map_option (\<lambda>r. r + int i) rotationIndex) n))
                    [0 ..< nat (min 6 n)]
          in case mapArticles P now displayPosts s3 of
               (Threw e, s') \<Rightarrow> (Threw e, b\<lparr>localStorage := s'\<rparr>)
             | (Returned arts, s') \<Rightarrow>
                 (Returned (), b\<lparr>localStorage := s', latest_posts := Some arts\<rparr>))"

subsection \<open>Loading the blog\<close>

text \<open>
  The body of the blog endpoint as \<^verbatim>\<open>api.fetchPosts\<close> looks at it: JSON
  \<^verbatim>\<open>null\<close> (on which \<^verbatim>\<open>data.success\<close> throws), or a value of which the truth of
  \<^verbatim>\<open>success\<close> is read and whose \<^verbatim>\<open>posts\<close> is an array of posts or is not an array.
\<close>

datatype posts_data = NullData | PostsData bool "post list option"

definition fetchPosts :: "posts_data fetched \<Rightarrow> post list result" where
  "fetchPosts net =
     (case net of
        Rejected \<Rightarrow> Threw NetworkError
      | Resolved r \<Rightarrow>
          if \<not> ok r then Threw (HttpError (http_status r))
          else
            (case body r of
               None \<Rightarrow> Threw SyntaxError
             | Some NullData \<Rightarrow> Threw TypeError
             | Some (PostsData success posts) \<Rightarrow>
                 (case posts of
                    None \<Rightarrow> Threw InvalidFormat
                  | Some ps \<Rightarrow> if \<not> success then Threw InvalidFormat else Returned ps)))"

definition LOAD_ERROR :: string where
  "LOAD_ERROR = ''Unable to load blog posts. Please try again later.''"

text \<open>
  \<^verbatim>\<open>BlogLoader.init\<close>; \<open>isBlogPage\<close> is
  \<^verbatim>\<open>window.location.pathname.includes('/blog/')\<close>.
\<close>

definition init :: "platform \<Rightarrow> int \<Rightarrow> bool \<Rightarrow> posts_data fetched \<Rightarrow> blog \<Rightarrow> unit result \<times> blog" where
  "init P now isBlogPage net b =
     (case fetchPosts net of
        Threw e \<Rightarrow> (Returned (), showError LOAD_ERROR b)
      | Returned allPosts \<Rightarrow>
          let validPosts = filterPosts allPosts
          in case (if isBlogPage then renderPosts P now validPosts 1 b
                   else renderHomepagePosts P now validPosts b) of
               (Threw e, b') \<Rightarrow> (Returned (), showError LOAD_ERROR b')
             | (Returned u, b') \<Rightarrow> (Returned (), b'))"


section \<open>Properties\<close>

subsection \<open>Example data\<close>

definition examplePlatform :: platform where
  "examplePlatform =
     \<lparr>JSON_parse = (\<lambda>t. None),
      JSON_stringify = (\<lambda>j. ''{}''),
      toISOString = intToString,
      StringToNumber = parseInt,
      ArrayToNumber = (\<lambda>xs. None)\<rparr>"

definition examplePost :: post where
  "examplePost =
     \<lparr>idea = Some ''Hello World'', status = Some ''ready'', name = None, Final_Image = None,
      image1 = None, image2 = None, image3 = None, image4 = None\<rparr>"

definition emptyStore :: store where
  "emptyStore = \<lparr>items = Map.empty, accessed = []\<rparr>"

text \<open>A blog page with every element the script looks up, and a page with none of them.\<close>

definition fullPage :: blog where
  "fullPage =
     \<lparr>currentPage = 1, totalPages = 1, allValidPosts = [],
      blog_posts_grid = Some \<lparr>grid_html = [], grid_display = []\<rparr>,
      loading_indicator = Some ''block'',
      no_posts_message = Some ''none'',
      pagination_section = Some \<lparr>pag_html = [], pag_display = ''block''\<rparr>,
      blog_posts_section_scrolls = Some 0,
      error_container = Some ''none'',
      error_text = Some [],
      latest_posts = Some [],
      localStorage = emptyStore\<rparr>"

definition barePage :: blog where
  "barePage =
     \<lparr>currentPage = 1, totalPages = 1, allValidPosts = [],
      blog_posts_grid = None,
      loading_indicator = None,
      no_posts_message = None,
      pagination_section = None,
      blog_posts_section_scrolls = None,
      error_container = None,
      error_text = None,
      latest_posts = None,
      localStorage = emptyStore\<rparr>"

subsection \<open>Pagination of the blog grid\<close>

text \<open>The card that \<^verbatim>\<open>ui.createPostCard\<close> returns for a post that has a status.\<close>

definition cardOf :: "post \<Rightarrow> card" where
  "cardOf p = postCard p (toLowerCase (case status p of None \<Rightarrow> [] | Some st \<Rightarrow> st))"

lemma keepPost_status: "keepPost p \<Longrightarrow> status p \<noteq> None"
  by (cases "idea p"; cases "status p")
     (auto simp: keepPost_def VALID_STATUSES_def trim_def toLowerCase_def Let_def split: if_splits)

lemma mapCards_ok:
  "list_all (\<lambda>p. status p \<noteq> None) ps \<Longrightarrow>
   \<exists>s'. mapCards P now ps i s = (Returned (map cardOf ps), s')"
proof (induction ps arbitrary: i s)
  case Nil
  then show ?case by simp
next
  case (Cons a ps)
  then obtain y where y: "status a = Some y" by auto
  from Cons obtain s' where
    "mapCards P now ps (i + 1) (storePostData P now a (createSlug (getTitle a)) s)
       = (Returned (map cardOf ps), s')"
    by fastforce
  with y show ?case by (simp add: createPostCard_def cardOf_def)
qed

lemma take_drop_nth: "take k (drop a xs) = map ((!) xs) [a ..< min (a + k) (length xs)]"
proof (rule nth_equalityI)
  show "length (take k (drop a xs)) = length (map ((!) xs) [a ..< min (a + k) (length xs)])"
    by auto
next
  fix i assume "i < length (take k (drop a xs))"
  then have "i < k" "a + i < length xs" by auto
  then show "take k (drop a xs) ! i = map ((!) xs) [a ..< min (a + k) (length xs)] ! i"
    by simp
qed

lemma slice_nth:
  "0 \<le> a \<Longrightarrow> a \<le> b \<Longrightarrow> slice xs a b = map ((!) xs) [nat a ..< nat (min (int (length xs)) b)]"
  unfolding slice_def sliceBound_def Let_def take_drop_nth
  by (auto simp: min_def intro!: arg_cong2[where f=upt])

lemma ceilDiv_pos: "1 \<le> n \<Longrightarrow> 1 \<le> ceilDiv n 6"
  unfolding ceilDiv_def by linarith

lemma renderPagination_frame:
  "blog_posts_grid (renderPagination b) = blog_posts_grid b"
  "currentPage (renderPagination b) = currentPage b"
  by (auto simp: renderPagination_def split: option.splits)

lemma renderPosts_nonempty:
  assumes g: "blog_posts_grid b = Some g" and ne: "posts \<noteq> []"
    and f: "list_all (\<lambda>p. status p \<noteq> None) posts" and pg: "1 \<le> page"
  defines "n \<equiv> int (length posts)"
  defines "cur \<equiv> min page (ceilDiv n 6)"
  shows "fst (renderPosts P now posts page b) = Returned ()"
    and "currentPage (snd (renderPosts P now posts page b)) = cur"
    and "map_option grid_html (blog_posts_grid (snd (renderPosts P now posts page b)))
           = Some (map (\<lambda>i. cardOf (posts ! i)) [nat ((cur - 1) * 6) ..< nat (min n (cur * 6))])"
proof -
  have n1: "1 \<le> n" using ne by (cases posts) (auto simp: n_def)
  have c1: "1 \<le> cur" using pg ceilDiv_pos[OF n1] by (simp add: cur_def)
  let ?sl = "slice posts ((cur - 1) * 6) ((cur - 1) * 6 + 6)"
  have sl: "?sl = map ((!) posts) [nat ((cur - 1) * 6) ..< nat (min n (cur * 6))]"
    using c1 by (simp add: slice_nth n_def algebra_simps)
  have "set ?sl \<subseteq> set posts" unfolding slice_def Let_def
    by (meson set_take_subset set_drop_subset subset_trans)
  with f have "list_all (\<lambda>p. status p \<noteq> None) ?sl"
    by (auto simp: list_all_iff)
  from mapCards_ok[OF this] obtain s' where
    mc: "mapCards P now ?sl ((cur - 1) * 6) (localStorage b) = (Returned (map cardOf ?sl), s')"
    by blast
  show "fst (renderPosts P now posts page b) = Returned ()"
    using g ne mc by (simp add: renderPosts_def Let_def POSTS_PER_PAGE_def cur_def n_def)
  show "currentPage (snd (renderPosts P now posts page b)) = cur"
    using g ne mc
    by (simp add: renderPosts_def Let_def POSTS_PER_PAGE_def cur_def n_def renderPagination_frame)
  show "map_option grid_html (blog_posts_grid (snd (renderPosts P now posts page b)))
           = Some (map (\<lambda>i. cardOf (posts ! i)) [nat ((cur - 1) * 6) ..< nat (min n (cur * 6))])"
    using g ne mc sl
    by (simp add: renderPosts_def Let_def POSTS_PER_PAGE_def cur_def n_def
        renderPagination_frame o_def)
qed

lemma renderPosts_empty:
  assumes g: "blog_posts_grid b = Some g"
  shows "fst (renderPosts P now [] page b) = Returned ()"
    and "blog_posts_grid (snd (renderPosts P now [] page b)) = Some g"
    and "currentPage (snd (renderPosts P now [] page b)) = currentPage b"
    and "map_option pag_display (pagination_section (snd (renderPosts P now [] page b)))
           = map_option (\<lambda>pg. ''none'') (pagination_section b)"
  using g by (simp_all add: renderPosts_def Let_def option.map_comp o_def)


text \<open>
  Claim C6, as the code has it. \<^verbatim>\<open>ui.renderPosts\<close> returns at once on a page
  without the element \<^verbatim>\<open>blog-posts-grid\<close>. On a page that has it: for every non-empty
  list of \<open>n\<close> filtered posts and every requested page \<open>p \<ge> 1\<close> the current page becomes
  \<open>min p (ceil (n / 6))\<close> and the grid holds exactly the cards of the posts at the indices
  from \<open>(currentPage - 1) * 6\<close> up to \<open>min n (currentPage * 6) - 1\<close>, in their order, at
  most six of them; for the empty list the grid and the current page stay as they are
  and the pagination section, where the page has one, is hidden.
\<close>

theorem renderPosts_pages:
  assumes "blog_posts_grid b = Some g"
  shows "(posts \<noteq> [] \<and> posts = filterPosts raw \<and> 1 \<le> page \<longrightarrow>
           (let n = int (length posts);
                cur = min page (ceilDiv n 6);
                shown = map (\<lambda>i. cardOf (posts ! i)) [nat ((cur - 1) * 6) ..< nat (min n (cur * 6))]
            in fst (renderPosts P now posts page b) = Returned ()
             \<and> currentPage (snd (renderPosts P now posts page b)) = cur
             \<and> map_option grid_html (blog_posts_grid (snd (renderPosts P now posts page b)))
                 = Some shown
             \<and> length shown \<le> 6))
       \<and> (posts = [] \<longrightarrow>
             fst (renderPosts P now posts page b) = Returned ()
           \<and> blog_posts_grid (snd (renderPosts P now posts page b)) = Some g
           \<and> currentPage (snd (renderPosts P now posts page b)) = currentPage b
           \<and> map_option pag_display (pagination_section (snd (renderPosts P now posts page b)))
               = map_option (\<lambda>pg. ''none'') (pagination_section b))"
proof (intro conjI impI)
  assume h: "posts \<noteq> [] \<and> posts = filterPosts raw \<and> 1 \<le> page"
  then have "posts = filter keepPost raw" by (simp add: filterPosts_def)
  then have "list_all keepPost posts"
    by (simp add: list_all_iff)
  then have st: "list_all (\<lambda>p. status p \<noteq> None) posts"
    by (auto simp: list_all_iff dest: keepPost_status)
  from h have ne: "posts \<noteq> []" by blast
  from h have pg: "1 \<le> page" by blast
  have len: "nat (min (int (length posts)) (c * 6)) - nat ((c - 1) * 6) \<le> 6" for c :: int
    by simp
  note r = renderPosts_nonempty[OF assms ne st pg, of P now]
  show "let n = int (length posts);
            cur = min page (ceilDiv n 6);
            shown = map (\<lambda>i. cardOf (posts ! i)) [nat ((cur - 1) * 6) ..< nat (min n (cur * 6))]
        in fst (renderPosts P now posts page b) = Returned ()
         \<and> currentPage (snd (renderPosts P now posts page b)) = cur
         \<and> map_option grid_html (blog_posts_grid (snd (renderPosts P now posts page b)))
             = Some shown
         \<and> length shown \<le> 6"
    unfolding Let_def
  proof (intro conjI)
    show "length (map (\<lambda>i. cardOf (posts ! i))
            [nat ((min page (ceilDiv (int (length posts)) 6) - 1) * 6) ..<
             nat (min (int (length posts)) (min page (ceilDiv (int (length posts)) 6) * 6))]) \<le> 6"
      using len[of "min page (ceilDiv (int (length posts)) 6)"] by simp
  qed (rule r)+
next
  assume e: "posts = []"
  note r = renderPosts_empty[OF assms, of P now page]
  show "fst (renderPosts P now posts page b) = Returned ()"
    unfolding e by (rule r)
  show "blog_posts_grid (snd (renderPosts P now posts page b)) = Some g"
    unfolding e by (rule r)
  show "currentPage (snd (renderPosts P now posts page b)) = currentPage b"
    unfolding e by (rule r)
  show "map_option pag_display (pagination_section (snd (renderPosts P now posts page b)))
           = map_option (\<lambda>pg. ''none'') (pagination_section b)"
    unfolding e by (rule r)
qed


definition sevenPosts :: "post list" where
  "sevenPosts = replicate 7 examplePost"

theorem renderPosts_pages_witness:
  "blog_posts_grid fullPage = Some \<lparr>grid_html = [], grid_display = []\<rparr>
   \<and> sevenPosts \<noteq> [] \<and> sevenPosts = filterPosts sevenPosts \<and> (1 :: int) \<le> 2
   \<and> fst (renderPosts examplePlatform 0 sevenPosts 2 fullPage) = Returned ()
   \<and> currentPage (snd (renderPosts examplePlatform 0 sevenPosts 2 fullPage)) = 2
   \<and> map_option grid_html (blog_posts_grid (snd (renderPosts examplePlatform 0 sevenPosts 2 fullPage)))
       = Some [cardOf examplePost]"
proof -
  have g: "blog_posts_grid fullPage = Some \<lparr>grid_html = [], grid_display = []\<rparr>"
    by (simp add: fullPage_def)
  have f: "sevenPosts = filterPosts sevenPosts"
    by code_simp
  have n: "sevenPosts \<noteq> []" "length sevenPosts = 7" "sevenPosts ! 6 = examplePost"
    by (simp_all add: sevenPosts_def)
  have c: "min 2 (ceilDiv 7 6) = 2"
    by (simp add: ceilDiv_def)
  from renderPosts_pages[OF g, of sevenPosts sevenPosts 2 examplePlatform 0] f n c g
  show ?thesis
    by (simp add: Let_def)
qed

theorem renderPosts_without_grid:
  "sevenPosts \<noteq> [] \<and> sevenPosts = filterPosts sevenPosts
   \<and> currentPage (snd (renderPosts examplePlatform 0 sevenPosts 2 barePage)) = 1
   \<and> min 2 (ceilDiv (int (length sevenPosts)) 6) = 2
   \<and> blog_posts_grid (snd (renderPosts examplePlatform 0 sevenPosts 2 barePage)) = None"
proof -
  have f: "sevenPosts = filterPosts sevenPosts"
    by code_simp
  have n: "sevenPosts \<noteq> []" "length sevenPosts = 7"
    by (simp_all add: sevenPosts_def)
  have c: "min 2 (ceilDiv 7 6) = 2"
    by (simp add: ceilDiv_def)
  have r: "renderPosts examplePlatform 0 sevenPosts 2 barePage = (Returned (), barePage)"
    by (simp add: renderPosts_def barePage_def)
  show ?thesis using f n c r by (simp add: barePage_def)
qed


subsection \<open>Rotation of the homepage preview\<close>















subsection \<open>Failures of the blog endpoint\<close>

text \<open>
  The two fields of the body that \<^verbatim>\<open>api.fetchPosts\<close> tests: whether \<^verbatim>\<open>success\<close> is
  truthy, and the \<^verbatim>\<open>posts\<close> array, if it is one.
\<close>

definition successField :: "posts_data option \<Rightarrow> bool" where
  "successField d = (case d of Some (PostsData success ps) \<Rightarrow> success | _ \<Rightarrow> False)"

definition postsField :: "posts_data option \<Rightarrow> post list option" where
  "postsField d = (case d of Some (PostsData success ps) \<Rightarrow> ps | _ \<Rightarrow> None)"

lemma fetchPosts_throws:
  "\<not> ok r \<or> \<not> successField (body r) \<or> postsField (body r) = None \<Longrightarrow>
   \<exists>e. fetchPosts (Resolved r) = Threw e"
  by (auto simp: fetchPosts_def successField_def postsField_def
           split: option.splits posts_data.splits)

lemma fetchPosts_returns:
  "ok r \<Longrightarrow> successField (body r) \<Longrightarrow> postsField (body r) = Some ps \<Longrightarrow>
   fetchPosts (Resolved r) = Returned ps"
  by (auto simp: fetchPosts_def successField_def postsField_def
           split: option.splits posts_data.splits)

lemma init_returns: "fst (init P now blogPage net b) = Returned ()"
  by (auto simp: init_def Let_def split: result.splits prod.splits)

lemma showError_shown:
  "error_container b \<noteq> None \<Longrightarrow> error_text b \<noteq> None \<Longrightarrow>
   error_text (showError m b) = Some m \<and> error_container (showError m b) = Some ''block''"
  by (simp add: showError_def Let_def)

text \<open>
  Claim C4, as the code has it. When the response is not HTTP-ok, or its body has no
  truthy \<^verbatim>\<open>success\<close>, or its \<^verbatim>\<open>posts\<close> is not an array, \<^verbatim>\<open>api.fetchPosts\<close> throws;
  \<^verbatim>\<open>BlogLoader.init\<close> does not throw and leaves the page as \<^verbatim>\<open>ui.showError\<close> leaves it
  for the fixed message, which shows the message when the page has both elements
  \<^verbatim>\<open>error-container\<close> and \<^verbatim>\<open>error-text\<close>. Otherwise \<^verbatim>\<open>api.fetchPosts\<close> returns the
  \<^verbatim>\<open>posts\<close> array unchanged.
\<close>

theorem fetchPosts_init_failure:
  "(\<not> ok r \<or> \<not> successField (body r) \<or> postsField (body r) = None \<longrightarrow>
      (\<exists>e. fetchPosts (Resolved r) = Threw e)
    \<and> fst (init P now blogPage (Resolved r) b) = Returned ()
    \<and> snd (init P now blogPage (Resolved r) b) = showError LOAD_ERROR b
    \<and> (error_container b \<noteq> None \<and> error_text b \<noteq> None \<longrightarrow>
          error_text (snd (init P now blogPage (Resolved r) b)) = Some LOAD_ERROR
        \<and> error_container (snd (init P now blogPage (Resolved r) b)) = Some ''block''))
 \<and> (ok r \<and> successField (body r) \<and> postsField (body r) = Some ps \<longrightarrow>
      fetchPosts (Resolved r) = Returned ps)"
proof (intro conjI impI)
  assume bad: "\<not> ok r \<or> \<not> successField (body r) \<or> postsField (body r) = None"
  from fetchPosts_throws[OF bad] obtain e where e: "fetchPosts (Resolved r) = Threw e" ..
  then show "\<exists>e. fetchPosts (Resolved r) = Threw e" ..
  show "fst (init P now blogPage (Resolved r) b) = Returned ()"
    by (rule init_returns)
  show s: "snd (init P now blogPage (Resolved r) b) = showError LOAD_ERROR b"
    using e by (simp add: init_def)
  assume "error_container b \<noteq> None \<and> error_text b \<noteq> None"
  then show "error_text (snd (init P now blogPage (Resolved r) b)) = Some LOAD_ERROR"
    and "error_container (snd (init P now blogPage (Resolved r) b)) = Some ''block''"
    using showError_shown[of b LOAD_ERROR] by (simp_all add: s)
next
  assume "ok r \<and> successField (body r) \<and> postsField (body r) = Some ps"
  then show "fetchPosts (Resolved r) = Returned ps"
    by (simp add: fetchPosts_returns)
qed

definition failedResponse :: "posts_data response" where
  "failedResponse = \<lparr>ok = False, http_status = 500, body = None\<rparr>"

definition goodResponse :: "posts_data response" where
  "goodResponse = \<lparr>ok = True, http_status = 200, body = Some (PostsData True (Some [examplePost]))\<rparr>"

theorem fetchPosts_init_failure_witness:
  "\<not> ok failedResponse
   \<and> error_container fullPage \<noteq> None \<and> error_text fullPage \<noteq> None
   \<and> fetchPosts (Resolved failedResponse) = Threw (HttpError 500)
   \<and> fst (init examplePlatform 0 True (Resolved failedResponse) fullPage) = Returned ()
   \<and> error_text (snd (init examplePlatform 0 True (Resolved failedResponse) fullPage)) = Some LOAD_ERROR
   \<and> ok goodResponse \<and> successField (body goodResponse)
   \<and> postsField (body goodResponse) = Some [examplePost]
   \<and> fetchPosts (Resolved goodResponse) = Returned [examplePost]"
proof -
  have f: "\<not> ok failedResponse" "fetchPosts (Resolved failedResponse) = Threw (HttpError 500)"
    by (simp_all add: failedResponse_def fetchPosts_def)
  have p: "error_container fullPage \<noteq> None" "error_text fullPage \<noteq> None"
    by (simp_all add: fullPage_def)
  have g: "ok goodResponse" "successField (body goodResponse)"
    "postsField (body goodResponse) = Some [examplePost]"
    by (simp_all add: goodResponse_def successField_def postsField_def)
  from fetchPosts_init_failure[where r=failedResponse and P=examplePlatform and now=0 and blogPage=True and b=fullPage] f(1) p
  have a: "fst (init examplePlatform 0 True (Resolved failedResponse) fullPage) = Returned ()"
    "error_text (snd (init examplePlatform 0 True (Resolved failedResponse) fullPage)) = Some LOAD_ERROR"
    by blast+
  from fetchPosts_init_failure[where r=goodResponse and ps="[examplePost]"] g
  have b: "fetchPosts (Resolved goodResponse) = Returned [examplePost]"
    by blast
  show ?thesis using a b f p g by blast
qed

theorem init_message_not_shown:
  "\<not> ok failedResponse
   \<and> fetchPosts (Resolved failedResponse) = Threw (HttpError 500)
   \<and> error_text (fullPage\<lparr>error_container := None\<rparr>) = Some []
   \<and> error_text (snd (init examplePlatform 0 True (Resolved failedResponse)
                        (fullPage\<lparr>error_container := None\<rparr>))) = Some []
   \<and> LOAD_ERROR \<noteq> []"
  by (simp add: failedResponse_def fetchPosts_def init_def showError_def fullPage_def
        setDisplay_def LOAD_ERROR_def)


section \<open>The Scholar statistics widget\<close>

record scholar_widget =
  apiUrl :: string
  cacheKey :: string
  cacheDuration :: int
  containerId :: string
  retryAttempts :: int
  retryDelay :: int

text \<open>The constructor; \<^verbatim>\<open>options.x || default\<close> replaces a missing and an empty option.\<close>

definition orDefault :: "string option \<Rightarrow> string \<Rightarrow> string" where
  "orDefault v d = (case v of None \<Rightarrow> d | Some t \<Rightarrow> if t = [] then d else t)"

definition newScholarStatsWidget :: "string option \<Rightarrow> string option \<Rightarrow> scholar_widget" where
  "newScholarStatsWidget optApiUrl optContainerId =
     \<lparr>apiUrl = orDefault optApiUrl ''https://vikasyadav-api.vikas4770.workers.dev/api/chat/message'',
      cacheKey = ''scholar_stats_cache'',
      cacheDuration = 3 * 24 * 60 * 60 * 1000,
      containerId = orDefault optContainerId ''scholar-stats-widget'',
      retryAttempts = 3,
      retryDelay = 1000\<rparr>"

text \<open>
  The world of the widget: the storage, the clock that \<^verbatim>\<open>Date.now()\<close> reads, and the
  requests sent and timers awaited so far, in their order. A timer of \<open>d\<close> milliseconds
  advances the clock by \<open>d\<close>; a request advances it by the time the server takes.
\<close>

datatype event = Fetch request | Wait int

record scholar_world =
  storage :: store
  clock :: int
  events :: "event list"

fun isFetch :: "event \<Rightarrow> bool" where
  "isFetch (Fetch r) = True"
| "isFetch (Wait d) = False"

text \<open>
  The network: the outcome of the \<open>k\<close>-th request and the time it takes, for each \<open>k\<close>.
  The abort signal of 10 seconds is one of the ways in which a request is rejected.
\<close>

type_synonym server = "nat \<Rightarrow> int \<times> json fetched"

text \<open>
  The metrics that one attempt of \<^verbatim>\<open>fetchStats\<close> finds in the parsed body: the variable
  \<^verbatim>\<open>metrics\<close> after the chain of format tests. A \<^verbatim>\<open>TypeError\<close> of \<^verbatim>\<open>data.response\<close>
  leaves the attempt; the errors inside the inner \<^verbatim>\<open>try\<close> are caught there.
\<close>

definition nestedMetrics :: "json option \<Rightarrow> json option" where
  "nestedMetrics v = optProp (optProp v ''output'') ''metrics''"

definition metricsOfParsed :: "json \<Rightarrow> json option" where
  "metricsOfParsed parsed =
     (if isArray (Some parsed) \<and> truthy (nestedMetrics (elem0 (Some parsed)))
      then nestedMetrics (elem0 (Some parsed))
      else
        (case getProp (Some parsed) ''output'' of
           Threw e \<Rightarrow> None
         | Returned out \<Rightarrow>
             if truthy (optProp out ''metrics'') then optProp out ''metrics'' else None))"

definition findMetrics :: "platform \<Rightarrow> json \<Rightarrow> json option result" where
  "findMetrics P data =
     (case getProp (Some data) ''response'' of
        Threw e \<Rightarrow> Threw e
      | Returned resp \<Rightarrow>
          Returned
            (if truthy resp
             then
               (case resp of
                  Some (JStr t) \<Rightarrow>
                    (case JSON_parse P t of
                       None \<Rightarrow> None
                     | Some parsed \<Rightarrow> metricsOfParsed parsed)
                | _ \<Rightarrow>
                    if truthy (optProp (optProp resp ''output'') ''metrics'')
                    then optProp (optProp resp ''output'') ''metrics''
                    else if isArray resp \<and> truthy (nestedMetrics (elem0 resp))
                    then nestedMetrics (elem0 resp)
                    else None)
             else None))"

text \<open>What one attempt makes of the outcome of its request: the metrics, or the error thrown.\<close>

definition responseMetrics :: "platform \<Rightarrow> json fetched \<Rightarrow> json result" where
  "responseMetrics P out =
     (case out of
        Rejected \<Rightarrow> Threw NetworkError
      | Resolved r \<Rightarrow>
          if \<not> ok r then Threw (HttpError (http_status r))
          else
            (case body r of
               None \<Rightarrow> Threw SyntaxError
             | Some data \<Rightarrow>
                 (case findMetrics P data of
                    Threw e \<Rightarrow> Threw e
                  | Returned None \<Rightarrow> Threw InvalidFormat
                  | Returned (Some metrics) \<Rightarrow>
                      if \<not> truthy (Some metrics) \<or> \<not> truthy (optProp (Some metrics) ''All'')
                      then Threw InvalidFormat
                      else Returned metrics)))"

definition cacheRecord :: "platform \<Rightarrow> json \<Rightarrow> int \<Rightarrow> json" where
  "cacheRecord P metrics now =
     object [(''metrics'', Some metrics),
             (''timestamp'', Some (JNum now)),
             (''cached_at'', Some (JStr (toISOString P now)))]"

definition cacheData :: "platform \<Rightarrow> scholar_widget \<Rightarrow> json \<Rightarrow> scholar_world \<Rightarrow> scholar_world" where
  "cacheData P W metrics w =
     w\<lparr>storage := setItem (cacheKey W) (JSON_stringify P (cacheRecord P metrics (clock w))) (storage w)\<rparr>"

text \<open>
  \<^verbatim>\<open>getCachedData(ignoreExpiry)\<close>: \<^verbatim>\<open>null\<close> for a missing or empty value and for every
  error caught; the result may also be \<^verbatim>\<open>undefined\<close> or a falsy value of the entry.
\<close>

definition getCachedData :: "platform \<Rightarrow> scholar_widget \<Rightarrow> bool \<Rightarrow> scholar_world \<Rightarrow> json option \<times> scholar_world" where
  "getCachedData P W ignoreExpiry w =
     (let (cached, s1) = getItem (cacheKey W) (storage w);
          w1 = w\<lparr>storage := s1\<rparr>
      in case cached of
           None \<Rightarrow> (None, w1)
         | Some t \<Rightarrow>
             if t = [] then (None, w1)
             else
               (case JSON_parse P t of
                  None \<Rightarrow> (None, w1)
                | Some data \<Rightarrow>
                    if ignoreExpiry
                    then (case getProp (Some data) ''metrics'' of
                            Threw e \<Rightarrow> (None, w1)
                          | Returned m \<Rightarrow> (m, w1))
                    else
                      (case getProp (Some data) ''timestamp'' of
                         Threw e \<Rightarrow> (None, w1)
                       | Returned ts \<Rightarrow>
                           (case toNumber P ts of
                              None \<Rightarrow> (None, w1)
                            | Some stamp \<Rightarrow>
                                if clock w - stamp < cacheDuration W
                                then (case getProp (Some data) ''metrics'' of
                                        Threw e \<Rightarrow> (None, w1)
                                      | Returned m \<Rightarrow> (m, w1))
                                else (None, w1)))))"

definition scholarRequest :: "platform \<Rightarrow> scholar_widget \<Rightarrow> int \<Rightarrow> request" where
  "scholarRequest P W now =
     \<lparr>url = apiUrl W,
      http_method = ''POST'',
      payload = Some (object
        [(''message'', Some (JStr ''/scholar'')),
         (''sessionId'', Some (JStr (''scholar_'' @ intToString now))),
         (''context'', Some (object
            [(''page'', Some (JStr ''homepage-scholar-widget'')),
             (''action'', Some (JStr ''fetch-stats'')),
             (''timestamp'', Some (JStr (toISOString P now)))]))])\<rparr>"

text \<open>The body of the \<^verbatim>\<open>try\<close> of one attempt.\<close>

definition attemptFetch :: "platform \<Rightarrow> scholar_widget \<Rightarrow> server \<Rightarrow> scholar_world \<Rightarrow> json result \<times> scholar_world" where
  "attemptFetch P W srv w =
     (let (elapsed, out) = srv (length (filter isFetch (events w)));
          w1 = w\<lparr>events := events w @ [Fetch (scholarRequest P W (clock w))],
                clock := clock w + elapsed\<rparr>
      in case responseMetrics P out of
           Threw e \<Rightarrow> (Threw e, w1)
         | Returned metrics \<Rightarrow> (Returned metrics, cacheData P W metrics w1))"

definition sleep :: "int \<Rightarrow> scholar_world \<Rightarrow> scholar_world" where
  "sleep d w = w\<lparr>events := events w @ [Wait d], clock := clock w + d\<rparr>"

text \<open>
  The loop \<^verbatim>\<open>for (let attempt = 1; attempt <= this.retryAttempts; attempt++)\<close>. A loop
  that ends without a \<^verbatim>\<open>return\<close> makes the function return \<^verbatim>\<open>undefined\<close>.
\<close>

function attempts :: "platform \<Rightarrow> scholar_widget \<Rightarrow> server \<Rightarrow> int \<Rightarrow> scholar_world \<Rightarrow> json option result \<times> scholar_world" where
  "attempts P W srv attempt w =
     (if attempt \<le> retryAttempts W
      then
        (case attemptFetch P W srv w of
           (Returned metrics, w1) \<Rightarrow> (Returned (Some metrics), w1)
         | (Threw e, w1) \<Rightarrow>
             if attempt < retryAttempts W
             then attempts P W srv (attempt + 1) (sleep (retryDelay W * attempt) w1)
             else
               (let (expiredCache, w2) = getCachedData P W True w1
                in if truthy expiredCache then (Returned expiredCache, w2) else (Threw e, w2)))
      else (Returned None, w))"
  by pat_completeness auto
termination
  by (relation "measure (\<lambda>(P, W, srv, attempt, w). nat (retryAttempts W + 1 - attempt))") auto

declare attempts.simps [simp del]

definition fetchStats :: "platform \<Rightarrow> scholar_widget \<Rightarrow> server \<Rightarrow> scholar_world \<Rightarrow> json option result \<times> scholar_world" where
  "fetchStats P W srv w =
     (let (cached, w1) = getCachedData P W False w
      in if truthy cached then (Returned cached, w1) else attempts P W srv 1 w1)"


subsection \<open>Retries and the stale cache\<close>

definition fetchCount :: "scholar_world \<Rightarrow> nat" where
  "fetchCount w = length (filter isFetch (events w))"

text \<open>The world after the request of one attempt has come back.\<close>

definition requested :: "platform \<Rightarrow> scholar_widget \<Rightarrow> server \<Rightarrow> scholar_world \<Rightarrow> scholar_world" where
  "requested P W srv w =
     w\<lparr>events := events w @ [Fetch (scholarRequest P W (clock w))],
       clock := clock w + fst (srv (fetchCount w))\<rparr>"

text \<open>What the \<open>k\<close>-th request after the state \<open>w\<close> gives to its attempt.\<close>

definition outcome :: "platform \<Rightarrow> server \<Rightarrow> scholar_world \<Rightarrow> nat \<Rightarrow> json result" where
  "outcome P srv w k = responseMetrics P (snd (srv (fetchCount w + k)))"

lemma attemptFetch_alt:
  "attemptFetch P W srv w =
     (case outcome P srv w 0 of
        Threw e \<Rightarrow> (Threw e, requested P W srv w)
      | Returned m \<Rightarrow> (Returned m, cacheData P W m (requested P W srv w)))"
  by (simp add: attemptFetch_def requested_def outcome_def fetchCount_def split_def Let_def
           split: result.splits)

lemma fetchCount_requested [simp]: "fetchCount (requested P W srv w) = Suc (fetchCount w)"
  by (simp add: fetchCount_def requested_def)

lemma fetchCount_sleep [simp]: "fetchCount (sleep d w) = fetchCount w"
  by (simp add: fetchCount_def sleep_def)

lemma outcome_requested [simp]: "outcome P srv (requested P W srv' w) k = outcome P srv w (Suc k)"
  by (simp add: outcome_def)

lemma outcome_sleep [simp]: "outcome P srv (sleep d w) k = outcome P srv w k"
  by (simp add: outcome_def)

text \<open>The three rounds of the loop of a widget with three attempts.\<close>

definition lastResort :: "platform \<Rightarrow> scholar_widget \<Rightarrow> error \<Rightarrow> scholar_world \<Rightarrow> json option result \<times> scholar_world" where
  "lastResort P W e w =
     (let (expiredCache, w2) = getCachedData P W True w
      in if truthy expiredCache then (Returned expiredCache, w2) else (Threw e, w2))"

lemma attempts_three:
  assumes "retryAttempts W = 3"
  shows "attempts P W srv 1 w =
     (let a1 = requested P W srv w
      in case outcome P srv w 0 of
           Returned m \<Rightarrow> (Returned (Some m), cacheData P W m a1)
         | Threw e1 \<Rightarrow>
            (let a2 = requested P W srv (sleep (retryDelay W * 1) a1)
             in case outcome P srv w 1 of
                  Returned m \<Rightarrow> (Returned (Some m), cacheData P W m a2)
                | Threw e2 \<Rightarrow>
                   (let a3 = requested P W srv (sleep (retryDelay W * 2) a2)
                    in case outcome P srv w 2 of
                         Returned m \<Rightarrow> (Returned (Some m), cacheData P W m a3)
                       | Threw e3 \<Rightarrow> lastResort P W e3 a3)))"
proof -
  have third: "attempts P W srv 3 v =
      (case outcome P srv v 0 of
         Returned m \<Rightarrow> (Returned (Some m), cacheData P W m (requested P W srv v))
       | Threw e3 \<Rightarrow> lastResort P W e3 (requested P W srv v))" for v
    by (subst attempts.simps) (simp add: assms attemptFetch_alt lastResort_def split: result.splits)
  have second: "attempts P W srv 2 v =
      (case outcome P srv v 0 of
         Returned m \<Rightarrow> (Returned (Some m), cacheData P W m (requested P W srv v))
       | Threw e2 \<Rightarrow> attempts P W srv 3 (sleep (retryDelay W * 2) (requested P W srv v)))" for v
    by (subst attempts.simps) (simp add: assms attemptFetch_alt split: result.splits)
  have first: "attempts P W srv 1 v =
      (case outcome P srv v 0 of
         Returned m \<Rightarrow> (Returned (Some m), cacheData P W m (requested P W srv v))
       | Threw e1 \<Rightarrow> attempts P W srv 2 (sleep (retryDelay W * 1) (requested P W srv v)))" for v
    by (subst attempts.simps) (simp add: assms attemptFetch_alt split: result.splits)
  show ?thesis
    by (simp add: first second third Let_def numeral_2_eq_2 split: result.splits)
qed


text \<open>
  The \<^verbatim>\<open>metrics\<close> property of the entry stored under the cache key, as
  \<^verbatim>\<open>getCachedData(true)\<close> reads it: nothing for a missing, an empty and an unparsable
  value, and for a value that parses to \<^verbatim>\<open>null\<close>.
\<close>

definition entryMetrics :: "platform \<Rightarrow> string option \<Rightarrow> json option" where
  "entryMetrics P v =
     (case v of
        None \<Rightarrow> None
      | Some t \<Rightarrow>
          if t = [] then None
          else (case JSON_parse P t of None \<Rightarrow> None | Some d \<Rightarrow> optProp (Some d) ''metrics''))"

lemma getProp_optProp:
  "(case getProp v k of Threw e \<Rightarrow> (None, w) | Returned m \<Rightarrow> (m, w)) = (optProp v k, w)"
  by (auto simp: getProp_def optProp_def split: option.splits json.splits)

lemma getCachedData_world:
  "events (snd (getCachedData P W i w)) = events w"
  "clock (snd (getCachedData P W i w)) = clock w"
  "items (storage (snd (getCachedData P W i w))) = items (storage w)"
  "accessed (storage (snd (getCachedData P W i w))) = accessed (storage w) @ [cacheKey W]"
  by (auto simp: getCachedData_def getItem_def Let_def getProp_optProp
           split: option.splits result.splits)

lemma getCachedData_expired:
  "fst (getCachedData P W True w) = entryMetrics P (items (storage w) (cacheKey W))"
  by (auto simp: getCachedData_def getItem_def Let_def getProp_optProp entryMetrics_def
           split: option.splits)

lemma fetchCount_getCachedData [simp]:
  "fetchCount (snd (getCachedData P W i w)) = fetchCount w"
  by (simp add: fetchCount_def getCachedData_world)

lemma outcome_getCachedData [simp]:
  "outcome P srv (snd (getCachedData P' W i w)) k = outcome P srv w k"
  by (simp add: outcome_def)

lemma requested_world:
  "storage (requested P W srv w) = storage w"
  "events (requested P W srv w) = events w @ [Fetch (scholarRequest P W (clock w))]"
  by (simp_all add: requested_def)

lemma sleep_world:
  "storage (sleep d w) = storage w"
  "events (sleep d w) = events w @ [Wait d]"
  "clock (sleep d w) = clock w + d"
  by (simp_all add: sleep_def)

lemma cacheData_world:
  "events (cacheData P W m w) = events w"
  "clock (cacheData P W m w) = clock w"
  "items (storage (cacheData P W m w)) (cacheKey W)
     = Some (JSON_stringify P (cacheRecord P m (clock w)))"
  by (simp_all add: cacheData_def setItem_def)

lemma lastResort_result:
  "fst (lastResort P W e w) =
     (if truthy (entryMetrics P (items (storage w) (cacheKey W)))
      then Returned (entryMetrics P (items (storage w) (cacheKey W)))
      else Threw e)"
  using getCachedData_expired[of P W w]
  by (auto simp: lastResort_def split_def Let_def)

lemma lastResort_events: "events (snd (lastResort P W e w)) = events w"
  by (simp add: lastResort_def split_def Let_def getCachedData_world)

lemma fetchStats_not_fresh:
  "\<not> truthy (fst (getCachedData P W False w)) \<Longrightarrow>
   fetchStats P W srv w = attempts P W srv 1 (snd (getCachedData P W False w))"
  by (simp add: fetchStats_def split_def Let_def)

lemma fetchStats_all_fail:
  assumes "retryAttempts W = 3"
    and "\<not> truthy (fst (getCachedData P W False w))"
    and "outcome P srv w 0 = Threw e1" "outcome P srv w 1 = Threw e2" "outcome P srv w 2 = Threw e3"
  shows "fst (fetchStats P W srv w) =
     (if truthy (entryMetrics P (items (storage w) (cacheKey W)))
      then Returned (entryMetrics P (items (storage w) (cacheKey W)))
      else Threw e3)"
  using assms
  by (simp add: fetchStats_not_fresh attempts_three Let_def lastResort_result
        requested_world sleep_world getCachedData_world)

text \<open>The timer of an event, if it is one.\<close>

fun waitOf :: "event \<Rightarrow> int option" where
  "waitOf (Fetch r) = None"
| "waitOf (Wait d) = Some d"

lemma fetchStats_schedule:
  assumes "retryAttempts W = 3"
    and "\<not> truthy (fst (getCachedData P W False w))"
  shows "\<exists>new. events (snd (fetchStats P W srv w)) = events w @ new
           \<and> map waitOf new \<in>
               {[None],
                [None, Some (retryDelay W * 1), None],
                [None, Some (retryDelay W * 1), None, Some (retryDelay W * 2), None]}"
  using assms
  by (auto simp: fetchStats_not_fresh attempts_three Let_def lastResort_events cacheData_world
        requested_world sleep_world getCachedData_world split: result.splits)


lemma fetches_by_waitOf:
  "length (filter isFetch xs) = length (filter (\<lambda>v. v = None) (map waitOf xs))"
proof (induction xs)
  case Nil
  then show ?case by simp
next
  case (Cons x xs)
  then show ?case by (cases x) simp_all
qed

text \<open>
  Claim C1, as the code has it. When no fresh cached value is available,
  \<^verbatim>\<open>fetchStats\<close> sends at most three requests, and the timers between them are
  \<^verbatim>\<open>retryDelay * 1\<close> and \<^verbatim>\<open>retryDelay * 2\<close>. When all three attempts fail, it returns the
  \<^verbatim>\<open>metrics\<close> of the entry stored under \<^verbatim>\<open>scholar_stats_cache\<close> if that entry parses
  and its metrics are truthy; in every other case (no entry, an entry that does not
  parse, an entry without metrics) it throws the error of the third attempt.
\<close>

theorem fetchStats_retries:
  assumes "W = newScholarStatsWidget a c"
    and "\<not> truthy (fst (getCachedData P W False w))"
  shows "(\<exists>new. events (snd (fetchStats P W srv w)) = events w @ new
            \<and> length (filter isFetch new) \<le> 3
            \<and> map waitOf new \<in>
                {[None],
                 [None, Some (retryDelay W * 1), None],
                 [None, Some (retryDelay W * 1), None, Some (retryDelay W * 2), None]})
       \<and> (outcome P srv w 0 = Threw e1 \<and> outcome P srv w 1 = Threw e2
            \<and> outcome P srv w 2 = Threw e3 \<longrightarrow>
          fst (fetchStats P W srv w) =
            (if truthy (entryMetrics P (items (storage w) ''scholar_stats_cache''))
             then Returned (entryMetrics P (items (storage w) ''scholar_stats_cache''))
             else Threw e3))"
proof -
  have three: "retryAttempts W = 3" and key: "cacheKey W = ''scholar_stats_cache''"
    unfolding assms(1) by (simp_all add: newScholarStatsWidget_def)
  from fetchStats_schedule[OF three assms(2), of srv]
  obtain new where n: "events (snd (fetchStats P W srv w)) = events w @ new"
    and sh: "map waitOf new \<in>
                {[None],
                 [None, Some (retryDelay W * 1), None],
                 [None, Some (retryDelay W * 1), None, Some (retryDelay W * 2), None]}"
    by (elim exE conjE)
  have cnt: "length (filter isFetch new) = length (filter (\<lambda>v. v = None) (map waitOf new))"
    by (rule fetches_by_waitOf)
  from sh have le: "length (filter isFetch new) \<le> 3"
    unfolding cnt by (elim insertE emptyE) simp_all
  have part1: "\<exists>new. events (snd (fetchStats P W srv w)) = events w @ new
            \<and> length (filter isFetch new) \<le> 3
            \<and> map waitOf new \<in>
                {[None],
                 [None, Some (retryDelay W * 1), None],
                 [None, Some (retryDelay W * 1), None, Some (retryDelay W * 2), None]}"
    by (rule exI[of _ new]) (intro conjI n le sh)
  have part2: "outcome P srv w 0 = Threw e1 \<and> outcome P srv w 1 = Threw e2
            \<and> outcome P srv w 2 = Threw e3 \<longrightarrow>
          fst (fetchStats P W srv w) =
            (if truthy (entryMetrics P (items (storage w) ''scholar_stats_cache''))
             then Returned (entryMetrics P (items (storage w) ''scholar_stats_cache''))
             else Threw e3)"
  proof
    assume o: "outcome P srv w 0 = Threw e1 \<and> outcome P srv w 1 = Threw e2
            \<and> outcome P srv w 2 = Threw e3"
    from o have o0: "outcome P srv w 0 = Threw e1" by (rule conjunct1)
    from o have o1: "outcome P srv w 1 = Threw e2" by (rule conjunct2[THEN conjunct1])
    from o have o2: "outcome P srv w 2 = Threw e3" by (rule conjunct2[THEN conjunct2])
    show "fst (fetchStats P W srv w) =
            (if truthy (entryMetrics P (items (storage w) ''scholar_stats_cache''))
             then Returned (entryMetrics P (items (storage w) ''scholar_stats_cache''))
             else Threw e3)"
      using fetchStats_all_fail[OF three assms(2) o0 o1 o2] unfolding key .
  qed
  from part1 part2 show ?thesis by (rule conjI)
qed


text \<open>Example data for the widget.\<close>

definition exampleMetrics :: json where
  "exampleMetrics = JObj [(''All'', JObj [(''citations'', JNum 10)])]"

definition cachePlatform :: platform where
  "cachePlatform =
     examplePlatform\<lparr>JSON_parse :=
        (\<lambda>t. if t = ''entry''
              then Some (JObj [(''metrics'', exampleMetrics), (''timestamp'', JNum 0)])
              else if t = ''empty entry'' then Some (JObj [(''timestamp'', JNum 0)])
              else None)\<rparr>"

definition cachedWorld :: "string \<Rightarrow> int \<Rightarrow> scholar_world" where
  "cachedWorld t now =
     \<lparr>storage = \<lparr>items = [''scholar_stats_cache'' \<mapsto> t], accessed = []\<rparr>,
      clock = now, events = []\<rparr>"

definition offline :: server where
  "offline = (\<lambda>k. (5, Rejected))"

lemma offline_outcome: "outcome P offline w k = Threw NetworkError"
  by (simp add: outcome_def offline_def responseMetrics_def)

theorem fetchStats_retries_witness:
  "\<not> truthy (fst (getCachedData cachePlatform (newScholarStatsWidget None None) False
                    (cachedWorld ''entry'' 300000000)))
   \<and> outcome cachePlatform offline (cachedWorld ''entry'' 300000000) 0 = Threw NetworkError
   \<and> outcome cachePlatform offline (cachedWorld ''entry'' 300000000) 1 = Threw NetworkError
   \<and> outcome cachePlatform offline (cachedWorld ''entry'' 300000000) 2 = Threw NetworkError
   \<and> fst (fetchStats cachePlatform (newScholarStatsWidget None None) offline
             (cachedWorld ''entry'' 300000000)) = Returned (Some exampleMetrics)"
proof -
  have nf: "\<not> truthy (fst (getCachedData cachePlatform (newScholarStatsWidget None None) False
                    (cachedWorld ''entry'' 300000000)))"
    by (simp add: getCachedData_def getItem_def cachedWorld_def newScholarStatsWidget_def
          cachePlatform_def getProp_def toNumber_def truthy_def Let_def)
  have em: "entryMetrics cachePlatform
              (items (storage (cachedWorld ''entry'' 300000000)) ''scholar_stats_cache'')
            = Some exampleMetrics"
    by (simp add: entryMetrics_def cachedWorld_def cachePlatform_def optProp_def)
  have tr: "truthy (Some exampleMetrics)"
    by (simp add: truthy_def exampleMetrics_def)
  from fetchStats_retries[OF refl nf, where srv=offline and ?e1.0=NetworkError
      and ?e2.0=NetworkError and ?e3.0=NetworkError]
  have "fst (fetchStats cachePlatform (newScholarStatsWidget None None) offline
             (cachedWorld ''entry'' 300000000)) = Returned (Some exampleMetrics)"
    by (simp add: offline_outcome em tr)
  with nf show ?thesis by (simp add: offline_outcome)
qed


theorem fetchStats_unreadable_entry:
  "items (storage (cachedWorld ''not json'' 300000000)) ''scholar_stats_cache'' = Some ''not json''
   \<and> \<not> truthy (fst (getCachedData cachePlatform (newScholarStatsWidget None None) False
                    (cachedWorld ''not json'' 300000000)))
   \<and> outcome cachePlatform offline (cachedWorld ''not json'' 300000000) 0 = Threw NetworkError
   \<and> outcome cachePlatform offline (cachedWorld ''not json'' 300000000) 1 = Threw NetworkError
   \<and> outcome cachePlatform offline (cachedWorld ''not json'' 300000000) 2 = Threw NetworkError
   \<and> fst (fetchStats cachePlatform (newScholarStatsWidget None None) offline
             (cachedWorld ''not json'' 300000000)) = Threw NetworkError"
proof -
  have three: "retryAttempts (newScholarStatsWidget None None) = 3"
    and key: "cacheKey (newScholarStatsWidget None None) = ''scholar_stats_cache''"
    by (simp_all add: newScholarStatsWidget_def)
  have nf: "\<not> truthy (fst (getCachedData cachePlatform (newScholarStatsWidget None None) False
                    (cachedWorld ''not json'' 300000000)))"
    by (simp add: getCachedData_def getItem_def cachedWorld_def newScholarStatsWidget_def
          cachePlatform_def truthy_def Let_def)
  have em: "entryMetrics cachePlatform
              (items (storage (cachedWorld ''not json'' 300000000)) ''scholar_stats_cache'') = None"
    by (simp add: entryMetrics_def cachedWorld_def cachePlatform_def)
  have "fst (fetchStats cachePlatform (newScholarStatsWidget None None) offline
             (cachedWorld ''not json'' 300000000)) = Threw NetworkError"
    using fetchStats_all_fail[OF three nf offline_outcome offline_outcome offline_outcome]
    by (simp add: key em truthy_def)
  with nf show ?thesis by (simp add: offline_outcome cachedWorld_def)
qed


subsection \<open>The time to live of the cache\<close>














section \<open>The chat widget\<close>

record msg_options =
  opt_suggestions :: "string list option"
  opt_timestamp :: "string option"
  opt_isError :: "bool option"

record message =
  msg_content :: string
  msg_sender :: string
  msg_timestamp :: string
  msg_options :: msg_options

text \<open>
  An element appended to \<^verbatim>\<open>chat-messages\<close>: the strings of its template. The time
  shown is the clock time of the timestamp; the record keeps the timestamp.
\<close>

record bubble =
  bubble_sender :: string
  bubble_isError :: bool
  bubble_content :: string
  bubble_suggestions :: "string list"
  bubble_timestamp :: string

record input_el =
  input_value :: string
  input_disabled :: bool
  input_focused :: bool

record send_el =
  send_disabled :: bool
  send_spinner :: bool

record messages_el =
  bubbles :: "bubble list"
  typing_indicator :: bool

text \<open>The body of the chat endpoint, with the types of the interface.\<close>

record chat_data =
  data_success :: bool
  data_response :: string
  data_sessionId :: string
  data_suggestions :: "string list option"
  data_timestamp :: "string option"
  data_message :: "string option"

text \<open>
  The widget, the elements it looks up by id, the location of the page, the storage
  and the requests sent so far. Timers that fire after a call has returned are not
  part of the state.
\<close>

record chat =
  chat_apiUrl :: string
  sessionId :: string
  isOpen :: bool
  messageHistory :: "message list"
  reconnectAttempts :: int
  maxReconnectAttempts :: int
  chat_input :: "input_el option"
  chat_send :: "send_el option"
  chat_messages :: "messages_el option"
  connection_status :: "string option"
  pathname :: string
  referrer :: string
  chat_storage :: store
  chat_requests :: "request list"

definition noOptions :: msg_options where
  "noOptions = \<lparr>opt_suggestions = None, opt_timestamp = None, opt_isError = None\<rparr>"

definition encodeOptions :: "msg_options \<Rightarrow> json" where
  "encodeOptions opts =
     object [(''suggestions'', map_option (\<lambda>xs. JArr (map JStr xs)) (opt_suggestions opts)),
             (''timestamp'', optStr (opt_timestamp opts)),
             (''isError'', map_option JBool (opt_isError opts))]"

definition encodeMessage :: "message \<Rightarrow> json" where
  "encodeMessage m =
     object [(''content'', Some (JStr (msg_content m))),
             (''sender'', Some (JStr (msg_sender m))),
             (''timestamp'', Some (JStr (msg_timestamp m))),
             (''options'', Some (encodeOptions (msg_options m)))]"

definition historyKey :: "chat \<Rightarrow> string" where
  "historyKey c = ''chat_history_'' @ sessionId c"

text \<open>\<^verbatim>\<open>saveChatHistory\<close>: the last 50 messages, \<^verbatim>\<open>messageHistory.slice(-50)\<close>.\<close>

definition saveChatHistory :: "platform \<Rightarrow> chat \<Rightarrow> chat" where
  "saveChatHistory P c =
     c\<lparr>chat_storage :=
         setItem (historyKey c)
           (JSON_stringify P (JArr (map encodeMessage (sliceFrom (messageHistory c) (- 50)))))
           (chat_storage c)\<rparr>"

text \<open>
  \<^verbatim>\<open>addMessage(content, sender, options)\<close>. \<open>now\<close> is the current time;
  \<^verbatim>\<open>options.timestamp || new Date().toISOString()\<close> replaces a missing and an empty
  timestamp. \<^verbatim>\<open>createSuggestions\<close> gives no buttons for an empty list.
\<close>

definition addMessage :: "platform \<Rightarrow> int \<Rightarrow> string \<Rightarrow> string \<Rightarrow> msg_options \<Rightarrow> chat \<Rightarrow> chat" where
  "addMessage P now content sender opts c =
     (case chat_messages c of
        None \<Rightarrow> c
      | Some container \<Rightarrow>
          let timestamp = (case opt_timestamp opts of
                             None \<Rightarrow> toISOString P now
                           | Some t \<Rightarrow> if t = [] then toISOString P now else t);
              isError = (case opt_isError opts of None \<Rightarrow> False | Some e \<Rightarrow> e);
              element = \<lparr>bubble_sender = sender,
                         bubble_isError = isError,
                         bubble_content = content,
                         bubble_suggestions =
                           (if sender = ''bot''
                            then (case opt_suggestions opts of None \<Rightarrow> [] | Some xs \<Rightarrow> xs)
                            else []),
                         bubble_timestamp = timestamp\<rparr>;
              c1 = c\<lparr>chat_messages := Some (container\<lparr>bubbles := bubbles container @ [element]\<rparr>),
                     messageHistory := messageHistory c @
                       [\<lparr>msg_content = content, msg_sender = sender,
                         msg_timestamp = timestamp, msg_options = opts\<rparr>]\<rparr>
          in saveChatHistory P c1)"

definition setInputDisabled :: "bool \<Rightarrow> chat \<Rightarrow> chat" where
  "setInputDisabled d c =
     c\<lparr>chat_input := map_option (\<lambda>i. i\<lparr>input_disabled := d\<rparr>) (chat_input c),
       chat_send := map_option (\<lambda>s. \<lparr>send_disabled = d, send_spinner = d\<rparr>) (chat_send c)\<rparr>"

definition updateConnectionStatus :: "string \<Rightarrow> chat \<Rightarrow> chat" where
  "updateConnectionStatus st c = c\<lparr>connection_status := map_option (\<lambda>_. st) (connection_status c)\<rparr>"

definition showBotTyping :: "chat \<Rightarrow> chat" where
  "showBotTyping c =
     c\<lparr>chat_messages := map_option (\<lambda>m. m\<lparr>typing_indicator := True\<rparr>) (chat_messages c)\<rparr>"

definition hideBotTyping :: "chat \<Rightarrow> chat" where
  "hideBotTyping c =
     c\<lparr>chat_messages := map_option (\<lambda>m. m\<lparr>typing_indicator := False\<rparr>) (chat_messages c)\<rparr>"

text \<open>
  \<^verbatim>\<open>handleConnectionError\<close>; the timer that shows \<^verbatim>\<open>online\<close> again two seconds later
  fires after the call.
\<close>

definition handleConnectionError :: "chat \<Rightarrow> chat" where
  "handleConnectionError c =
     (let c1 = c\<lparr>reconnectAttempts := reconnectAttempts c + 1\<rparr>
      in if reconnectAttempts c1 \<ge> maxReconnectAttempts c1
         then updateConnectionStatus ''offline'' c1
         else updateConnectionStatus ''connecting'' c1)"

definition getContext :: "platform \<Rightarrow> int \<Rightarrow> chat \<Rightarrow> json" where
  "getContext P now c =
     object [(''page'', Some (JStr (pathname c))),
             (''referrer'', Some (JStr (referrer c))),
             (''messageCount'', Some (JNum (int (length (messageHistory c))))),
             (''timestamp'', Some (JStr (toISOString P now)))]"

definition chatRequest :: "platform \<Rightarrow> int \<Rightarrow> string \<Rightarrow> chat \<Rightarrow> request" where
  "chatRequest P now message c =
     \<lparr>url = chat_apiUrl c @ ''/api/chat/message'',
      http_method = ''POST'',
      payload = Some (object
        [(''message'', Some (JStr message)),
         (''sessionId'', Some (JStr (sessionId c))),
         (''context'', Some (getContext P now c))])\<rparr>"

definition TROUBLE :: string where
  "TROUBLE = ''I'' @ [CHR 0x27] @ ''m having trouble connecting right now. Please try again in a moment.''"

text \<open>The \<^verbatim>\<open>catch\<close> block of \<^verbatim>\<open>sendMessage\<close>.\<close>

definition sendFailed :: "platform \<Rightarrow> int \<Rightarrow> chat \<Rightarrow> chat" where
  "sendFailed P now c =
     addMessage P now TROUBLE ''bot''
       \<lparr>opt_suggestions = None, opt_timestamp = None, opt_isError = Some True\<rparr>
       (handleConnectionError (hideBotTyping c))"

text \<open>The \<^verbatim>\<open>finally\<close> block of \<^verbatim>\<open>sendMessage\<close>.\<close>

definition sendDone :: "chat \<Rightarrow> chat" where
  "sendDone c =
     (let c1 = setInputDisabled False c
      in c1\<lparr>chat_input := map_option (\<lambda>i. i\<lparr>input_focused := True\<rparr>) (chat_input c1)\<rparr>)"

text \<open>
  \<^verbatim>\<open>sendMessage\<close>. \<open>now\<close> is the time of the call, and the request comes back
  \<open>elapsed\<close> milliseconds later with the outcome \<open>net\<close>.
\<close>

definition sendMessage :: "platform \<Rightarrow> int \<Rightarrow> int \<Rightarrow> chat_data fetched \<Rightarrow> chat \<Rightarrow> chat" where
  "sendMessage P now elapsed net c =
     (case chat_input c of
        None \<Rightarrow> c
      | Some chatInput \<Rightarrow>
          let message = trim (input_value chatInput)
          in if message = [] then c
             else
               let c1 = setInputDisabled True
                          (c\<lparr>chat_input := Some (chatInput\<lparr>input_value := []\<rparr>)\<rparr>);
                   c2 = addMessage P now message ''user'' noOptions c1;
                   c3 = updateConnectionStatus ''connecting'' (showBotTyping c2);
                   c4 = c3\<lparr>chat_requests := chat_requests c3 @ [chatRequest P now message c3]\<rparr>;
                   later = now + elapsed
               in sendDone
                    (case net of
                       Rejected \<Rightarrow> sendFailed P later c4
                     | Resolved r \<Rightarrow>
                         let c5 = hideBotTyping c4
                         in if \<not> ok r then sendFailed P later c5
                            else
                              (case body r of
                                 None \<Rightarrow> sendFailed P later c5
                               | Some d \<Rightarrow>
                                   if data_success d
                                   then
                                     (let c6 = addMessage P later (data_response d) ''bot''
                                                 \<lparr>opt_suggestions = data_suggestions d,
                                                  opt_timestamp = data_timestamp d,
                                                  opt_isError = None\<rparr>
                                                 (c5\<lparr>sessionId := data_sessionId d\<rparr>)
                                      in (updateConnectionStatus ''online'' c6)
                                           \<lparr>reconnectAttempts := 0\<rparr>)
                                   else sendFailed P later c5)))"


text \<open>
  Reading a stored history back. \<^verbatim>\<open>loadChatHistory\<close> assigns the parsed value to
  \<^verbatim>\<open>messageHistory\<close> and calls \<^verbatim>\<open>addMessage\<close> for each of its elements with the
  content, sender and options of the element. The model reads values of the shape that
  \<^verbatim>\<open>saveChatHistory\<close> writes; a stored value of another shape is treated like one
  that does not parse.
\<close>

fun decodeStrings :: "json list \<Rightarrow> string list option" where
  "decodeStrings [] = Some []"
| "decodeStrings (JStr t # xs) = map_option ((#) t) (decodeStrings xs)"
| "decodeStrings (x # xs) = None"

definition decodeOptions :: "json option \<Rightarrow> msg_options option" where
  "decodeOptions v =
     (case v of
        None \<Rightarrow> Some noOptions
      | Some (JObj kvs) \<Rightarrow>
          (case (case map_of kvs ''suggestions'' of
                   None \<Rightarrow> Some None
                 | Some (JArr xs) \<Rightarrow> map_option Some (decodeStrings xs)
                 | Some _ \<Rightarrow> None,
                 case map_of kvs ''timestamp'' of
                   None \<Rightarrow> Some None
                 | Some (JStr t) \<Rightarrow> Some (Some t)
                 | Some _ \<Rightarrow> None,
                 case map_of kvs ''isError'' of
                   None \<Rightarrow> Some None
                 | Some (JBool e) \<Rightarrow> Some (Some e)
                 | Some _ \<Rightarrow> None) of
             (Some sg, Some ts, Some er) \<Rightarrow>
               Some \<lparr>opt_suggestions = sg, opt_timestamp = ts, opt_isError = er\<rparr>
           | _ \<Rightarrow> None)
      | Some _ \<Rightarrow> None)"

definition decodeMessage :: "json \<Rightarrow> message option" where
  "decodeMessage j =
     (case j of
        JObj kvs \<Rightarrow>
          (case (map_of kvs ''content'', map_of kvs ''sender'', map_of kvs ''timestamp'',
                 decodeOptions (map_of kvs ''options'')) of
             (Some (JStr ct), Some (JStr sd), Some (JStr ts), Some opts) \<Rightarrow>
               Some \<lparr>msg_content = ct, msg_sender = sd, msg_timestamp = ts, msg_options = opts\<rparr>
           | _ \<Rightarrow> None)
      | _ \<Rightarrow> None)"

fun decodeMessages :: "json list \<Rightarrow> message list option" where
  "decodeMessages [] = Some []"
| "decodeMessages (j # js) =
     (case decodeMessage j of
        None \<Rightarrow> None
      | Some m \<Rightarrow> map_option ((#) m) (decodeMessages js))"

definition decodeHistory :: "json \<Rightarrow> message list option" where
  "decodeHistory j = (case j of JArr js \<Rightarrow> decodeMessages js | _ \<Rightarrow> None)"

definition loadChatHistory :: "platform \<Rightarrow> int \<Rightarrow> chat \<Rightarrow> chat" where
  "loadChatHistory P now c =
     (let (saved, s1) = getItem (historyKey c) (chat_storage c);
          c1 = c\<lparr>chat_storage := s1\<rparr>
      in case saved of
           None \<Rightarrow> c1
         | Some t \<Rightarrow>
             if t = [] then c1
             else
               (case JSON_parse P t of
                  None \<Rightarrow> c1
                | Some j \<Rightarrow>
                    (case decodeHistory j of
                       None \<Rightarrow> c1
                     | Some msgs \<Rightarrow>
                         foldl (\<lambda>st m. addMessage P now (msg_content m) (msg_sender m)
                                         (msg_options m) st)
                               (c1\<lparr>messageHistory := msgs\<rparr>) msgs)))"

definition WELCOME :: string where
  "WELCOME = ''Hello! I'' @ [CHR 0x27] @ ''m Vikas'' @ [CHR 0x27]
     @ ''s AI assistant. I can help you learn about his work, projects, and blog content. How can I assist you today?''"

definition WELCOME_SUGGESTIONS :: "string list" where
  "WELCOME_SUGGESTIONS =
     [''Tell me about Vikas'' @ [CHR 0x27] @ ''s portfolio'',
      ''What are his latest projects?'',
      ''Show me recent blog posts'',
      ''How can I contact Vikas?'']"

text \<open>
  \<^verbatim>\<open>showWelcomeMessage\<close> sets a timer when the history is empty; this is what the timer
  does one second later.
\<close>

definition welcomeMessage :: "platform \<Rightarrow> int \<Rightarrow> chat \<Rightarrow> chat" where
  "welcomeMessage P now c =
     addMessage P now WELCOME ''bot''
       \<lparr>opt_suggestions = Some WELCOME_SUGGESTIONS, opt_timestamp = None, opt_isError = None\<rparr> c"

text \<open>\<^verbatim>\<open>clearHistory\<close>, up to the timer of \<^verbatim>\<open>showWelcomeMessage\<close>.\<close>

definition clearHistory :: "chat \<Rightarrow> chat" where
  "clearHistory c =
     c\<lparr>messageHistory := [],
       chat_messages := map_option (\<lambda>m. \<lparr>bubbles = [], typing_indicator = False\<rparr>) (chat_messages c),
       chat_storage := removeItem (historyKey c) (chat_storage c)\<rparr>"

subsection \<open>The persisted chat history\<close>






definition exampleMessage :: message where
  "exampleMessage =
     \<lparr>msg_content = ''earlier'', msg_sender = ''user'', msg_timestamp = ''t0'',
      msg_options = noOptions\<rparr>"

definition exampleChat :: chat where
  "exampleChat =
     \<lparr>chat_apiUrl = ''https://api.vikasyadav.live'',
      sessionId = ''chat_1_abc'',
      isOpen = True,
      messageHistory = replicate 50 exampleMessage,
      reconnectAttempts = 2,
      maxReconnectAttempts = 3,
      chat_input = Some \<lparr>input_value = '' hello '', input_disabled = False, input_focused = True\<rparr>,
      chat_send = Some \<lparr>send_disabled = False, send_spinner = False\<rparr>,
      chat_messages = Some \<lparr>bubbles = [], typing_indicator = False\<rparr>,
      connection_status = Some ''online'',
      pathname = ''/index.html'',
      referrer = [],
      chat_storage = emptyStore,
      chat_requests = []\<rparr>"



subsection \<open>One exchange with the chat endpoint\<close>

lemma addMessage_frame:
  "chat_requests (addMessage P now ct sd opts c) = chat_requests c"
  "sessionId (addMessage P now ct sd opts c) = sessionId c"
  "reconnectAttempts (addMessage P now ct sd opts c) = reconnectAttempts c"
  "chat_apiUrl (addMessage P now ct sd opts c) = chat_apiUrl c"
  "chat_input (addMessage P now ct sd opts c) = chat_input c"
  "chat_send (addMessage P now ct sd opts c) = chat_send c"
  by (cases "chat_messages c";
      simp add: addMessage_def saveChatHistory_def Let_def)+

lemma addMessage_bubbles:
  "map_option bubbles (chat_messages (addMessage P now ct sd opts c))
     = map_option (\<lambda>m. bubbles m @
         [\<lparr>bubble_sender = sd,
           bubble_isError = (case opt_isError opts of None \<Rightarrow> False | Some e \<Rightarrow> e),
           bubble_content = ct,
           bubble_suggestions =
             (if sd = ''bot'' then (case opt_suggestions opts of None \<Rightarrow> [] | Some xs \<Rightarrow> xs)
              else []),
           bubble_timestamp = (case opt_timestamp opts of
                                 None \<Rightarrow> toISOString P now
                               | Some t \<Rightarrow> if t = [] then toISOString P now else t)\<rparr>])
         (chat_messages c)"
  by (cases "chat_messages c") (simp_all add: addMessage_def saveChatHistory_def Let_def)

lemma addMessage_container:
  "chat_messages c = Some el \<Longrightarrow>
   \<exists>el'. chat_messages (addMessage P now ct sd opts c) = Some el'"
  by (simp add: addMessage_def saveChatHistory_def Let_def)

lemma sendDone_frame:
  "chat_requests (sendDone c) = chat_requests c"
  "sessionId (sendDone c) = sessionId c"
  "reconnectAttempts (sendDone c) = reconnectAttempts c"
  "chat_messages (sendDone c) = chat_messages c"
  by (simp_all add: sendDone_def setInputDisabled_def Let_def)

lemma sendFailed_requests: "chat_requests (sendFailed P now c) = chat_requests c"
  by (simp add: sendFailed_def addMessage_frame handleConnectionError_def
        updateConnectionStatus_def hideBotTyping_def Let_def)

lemma sendMessage_request:
  assumes "chat_input c = Some inp" and "trim (input_value inp) \<noteq> []"
  shows "\<exists>ctx. chat_requests (sendMessage P now elapsed net c)
           = chat_requests c @
               [\<lparr>url = chat_apiUrl c @ ''/api/chat/message'',
                 http_method = ''POST'',
                 payload = Some (JObj [(''message'', JStr (trim (input_value inp))),
                                       (''sessionId'', JStr (sessionId c)),
                                       (''context'', ctx)])\<rparr>]"
  using assms
  by (simp add: sendMessage_def Let_def sendDone_frame sendFailed_requests addMessage_frame
        updateConnectionStatus_def hideBotTyping_def showBotTyping_def setInputDisabled_def
        chatRequest_def object_def
      split: fetched.splits option.splits)

lemma sendMessage_success:
  assumes "chat_input c = Some inp" and "trim (input_value inp) \<noteq> []"
    and "net = Resolved r" and "ok r" and "body r = Some d" and "data_success d"
  shows "sessionId (sendMessage P now elapsed net c) = data_sessionId d"
    and "reconnectAttempts (sendMessage P now elapsed net c) = 0"
    and "chat_messages c = Some el \<Longrightarrow>
         \<exists>shown. map_option bubbles (chat_messages (sendMessage P now elapsed net c))
           = Some (shown @
               [\<lparr>bubble_sender = ''bot'',
                 bubble_isError = False,
                 bubble_content = data_response d,
                 bubble_suggestions = (case data_suggestions d of None \<Rightarrow> [] | Some xs \<Rightarrow> xs),
                 bubble_timestamp =
                   (case data_timestamp d of
                      None \<Rightarrow> toISOString P (now + elapsed)
                    | Some t \<Rightarrow> if t = [] then toISOString P (now + elapsed) else t)\<rparr>])"
proof -
  show "sessionId (sendMessage P now elapsed net c) = data_sessionId d"
    and "reconnectAttempts (sendMessage P now elapsed net c) = 0"
    using assms
    by (simp_all add: sendMessage_def Let_def sendDone_frame addMessage_frame
          updateConnectionStatus_def)
  assume el: "chat_messages c = Some el"
  define c1 where "c1 = setInputDisabled True (c\<lparr>chat_input := Some (inp\<lparr>input_value := []\<rparr>)\<rparr>)"
  have "chat_messages c1 = Some el"
    by (simp add: c1_def setInputDisabled_def el)
  from addMessage_container[OF this, of P now "trim (input_value inp)" "''user''" noOptions]
  obtain el' where el': "chat_messages (addMessage P now (trim (input_value inp)) ''user'' noOptions c1)
                          = Some el'" ..
  show "\<exists>shown. map_option bubbles (chat_messages (sendMessage P now elapsed net c))
           = Some (shown @
               [\<lparr>bubble_sender = ''bot'',
                 bubble_isError = False,
                 bubble_content = data_response d,
                 bubble_suggestions = (case data_suggestions d of None \<Rightarrow> [] | Some xs \<Rightarrow> xs),
                 bubble_timestamp =
                   (case data_timestamp d of
                      None \<Rightarrow> toISOString P (now + elapsed)
                    | Some t \<Rightarrow> if t = [] then toISOString P (now + elapsed) else t)\<rparr>])"
    using assms el'
    by (simp add: sendMessage_def Let_def sendDone_frame addMessage_bubbles c1_def[symmetric]
          updateConnectionStatus_def hideBotTyping_def showBotTyping_def)
qed


text \<open>
  Claim C5, as the code has it. For every message that is not empty after trimming,
  \<^verbatim>\<open>sendMessage\<close> posts one request whose JSON body has exactly the fields
  \<^verbatim>\<open>message\<close>, \<^verbatim>\<open>sessionId\<close> and \<^verbatim>\<open>context\<close>. When the response is HTTP-ok and its
  body has a truthy \<^verbatim>\<open>success\<close>, the widget takes the returned session id and sets its
  reconnect counter to 0; on a page that has the element \<^verbatim>\<open>chat-messages\<close> it appends
  the returned response as a bot message with the returned suggestions and the returned
  timestamp (the current time when the body has no timestamp). On a page without that
  element \<^verbatim>\<open>addMessage\<close> returns at once and nothing is rendered.
\<close>

theorem sendMessage_exchange:
  assumes "chat_input c = Some inp" and "trim (input_value inp) \<noteq> []"
  shows "(\<exists>ctx. chat_requests (sendMessage P now elapsed net c)
           = chat_requests c @
               [\<lparr>url = chat_apiUrl c @ ''/api/chat/message'',
                 http_method = ''POST'',
                 payload = Some (JObj [(''message'', JStr (trim (input_value inp))),
                                       (''sessionId'', JStr (sessionId c)),
                                       (''context'', ctx)])\<rparr>])
       \<and> (net = Resolved r \<and> ok r \<and> body r = Some d \<and> data_success d \<longrightarrow>
            sessionId (sendMessage P now elapsed net c) = data_sessionId d
          \<and> reconnectAttempts (sendMessage P now elapsed net c) = 0
          \<and> (chat_messages c = Some el \<longrightarrow>
               (\<exists>shown. map_option bubbles (chat_messages (sendMessage P now elapsed net c))
                  = Some (shown @
                      [\<lparr>bubble_sender = ''bot'',
                        bubble_isError = False,
                        bubble_content = data_response d,
                        bubble_suggestions =
                          (case data_suggestions d of None \<Rightarrow> [] | Some xs \<Rightarrow> xs),
                        bubble_timestamp =
                          (case data_timestamp d of
                             None \<Rightarrow> toISOString P (now + elapsed)
                           | Some t \<Rightarrow> if t = [] then toISOString P (now + elapsed) else t)\<rparr>]))))"
proof (intro conjI impI)
  show "\<exists>ctx. chat_requests (sendMessage P now elapsed net c)
           = chat_requests c @
               [\<lparr>url = chat_apiUrl c @ ''/api/chat/message'',
                 http_method = ''POST'',
                 payload = Some (JObj [(''message'', JStr (trim (input_value inp))),
                                       (''sessionId'', JStr (sessionId c)),
                                       (''context'', ctx)])\<rparr>]"
    by (rule sendMessage_request[OF assms])
next
  assume h: "net = Resolved r \<and> ok r \<and> body r = Some d \<and> data_success d"
  then have n: "net = Resolved r" and o: "ok r" and b: "body r = Some d" and s: "data_success d"
    by simp_all
  show "sessionId (sendMessage P now elapsed net c) = data_sessionId d"
    by (rule sendMessage_success(1)[OF assms n o b s])
  show "reconnectAttempts (sendMessage P now elapsed net c) = 0"
    by (rule sendMessage_success(2)[OF assms n o b s])
  assume "chat_messages c = Some el"
  then show "\<exists>shown. map_option bubbles (chat_messages (sendMessage P now elapsed net c))
                  = Some (shown @
                      [\<lparr>bubble_sender = ''bot'',
                        bubble_isError = False,
                        bubble_content = data_response d,
                        bubble_suggestions =
                          (case data_suggestions d of None \<Rightarrow> [] | Some xs \<Rightarrow> xs),
                        bubble_timestamp =
                          (case data_timestamp d of
                             None \<Rightarrow> toISOString P (now + elapsed)
                           | Some t \<Rightarrow> if t = [] then toISOString P (now + elapsed) else t)\<rparr>])"
    by (rule sendMessage_success(3)[OF assms n o b s])
qed

definition exampleReply :: chat_data where
  "exampleReply =
     \<lparr>data_success = True, data_response = ''Hi there'', data_sessionId = ''chat_2_xyz'',
      data_suggestions = Some [''More''], data_timestamp = Some ''t1'', data_message = None\<rparr>"

definition replyResponse :: "chat_data response" where
  "replyResponse = \<lparr>ok = True, http_status = 200, body = Some exampleReply\<rparr>"

lemma trim_hello: "trim '' hello '' = ''hello''"
  by code_simp

theorem sendMessage_exchange_witness:
  "chat_input exampleChat
     = Some \<lparr>input_value = '' hello '', input_disabled = False, input_focused = True\<rparr>
   \<and> trim '' hello '' = ''hello''
   \<and> ok replyResponse \<and> body replyResponse = Some exampleReply \<and> data_success exampleReply
   \<and> chat_messages exampleChat = Some \<lparr>bubbles = [], typing_indicator = False\<rparr>
   \<and> sessionId (sendMessage examplePlatform 7 5 (Resolved replyResponse) exampleChat) = ''chat_2_xyz''
   \<and> reconnectAttempts (sendMessage examplePlatform 7 5 (Resolved replyResponse) exampleChat) = 0
   \<and> (\<exists>shown. map_option bubbles
          (chat_messages (sendMessage examplePlatform 7 5 (Resolved replyResponse) exampleChat))
        = Some (shown @
            [\<lparr>bubble_sender = ''bot'', bubble_isError = False, bubble_content = ''Hi there'',
              bubble_suggestions = [''More''], bubble_timestamp = ''t1''\<rparr>]))"
proof -
  have i: "chat_input exampleChat
     = Some \<lparr>input_value = '' hello '', input_disabled = False, input_focused = True\<rparr>"
    and m: "chat_messages exampleChat = Some \<lparr>bubbles = [], typing_indicator = False\<rparr>"
    by (simp_all add: exampleChat_def)
  have t: "trim (input_value \<lparr>input_value = '' hello '', input_disabled = False, input_focused = True\<rparr>) \<noteq> []"
    by (simp add: trim_hello)
  have r: "ok replyResponse" "body replyResponse = Some exampleReply" "data_success exampleReply"
    by (simp_all add: replyResponse_def exampleReply_def)
  have d: "data_sessionId exampleReply = ''chat_2_xyz''" "data_response exampleReply = ''Hi there''"
    "data_suggestions exampleReply = Some [''More'']" "data_timestamp exampleReply = Some ''t1''"
    by (simp_all add: exampleReply_def)
  from sendMessage_exchange[OF i t, where net="Resolved replyResponse" and r=replyResponse
      and d=exampleReply and P=examplePlatform and now=7 and elapsed=5
      and el="\<lparr>bubbles = [], typing_indicator = False\<rparr>", THEN conjunct2] r m
  have "sessionId (sendMessage examplePlatform 7 5 (Resolved replyResponse) exampleChat) = ''chat_2_xyz''
   \<and> reconnectAttempts (sendMessage examplePlatform 7 5 (Resolved replyResponse) exampleChat) = 0
   \<and> (\<exists>shown. map_option bubbles
          (chat_messages (sendMessage examplePlatform 7 5 (Resolved replyResponse) exampleChat))
        = Some (shown @
            [\<lparr>bubble_sender = ''bot'', bubble_isError = False, bubble_content = ''Hi there'',
              bubble_suggestions = [''More''], bubble_timestamp = ''t1''\<rparr>]))"
    by (simp add: d)
  with i m r show ?thesis by (simp add: trim_hello)
qed

theorem sendMessage_without_container:
  "chat_input (exampleChat\<lparr>chat_messages := None\<rparr>)
     = Some \<lparr>input_value = '' hello '', input_disabled = False, input_focused = True\<rparr>
   \<and> trim '' hello '' = ''hello''
   \<and> ok replyResponse \<and> body replyResponse = Some exampleReply \<and> data_success exampleReply
   \<and> sessionId (sendMessage examplePlatform 7 5 (Resolved replyResponse)
                   (exampleChat\<lparr>chat_messages := None\<rparr>)) = ''chat_2_xyz''
   \<and> chat_messages (sendMessage examplePlatform 7 5 (Resolved replyResponse)
                   (exampleChat\<lparr>chat_messages := None\<rparr>)) = None
   \<and> messageHistory (sendMessage examplePlatform 7 5 (Resolved replyResponse)
                   (exampleChat\<lparr>chat_messages := None\<rparr>)) = messageHistory exampleChat"
  by (simp add: sendMessage_def exampleChat_def trim_hello replyResponse_def exampleReply_def
        Let_def addMessage_def sendDone_def setInputDisabled_def updateConnectionStatus_def
        hideBotTyping_def showBotTyping_def)


section \<open>The OCR tool\<close>

record upload_file =
  file_name :: string
  file_size :: int
  file_type :: string

text \<open>The body of the OCR endpoint, with the types of the interface.\<close>

record ocr_result =
  result_success :: bool
  result_message :: "string option"
  result_extractedText :: "string option"
  result_confidence :: "int option"
  result_wordCount :: "int option"
  result_filename :: "string option"
  result_details :: "json option"

record history_item =
  item_id :: int
  item_filename :: string
  item_extractedText :: string
  item_confidence :: "int option"
  item_wordCount :: "int option"
  item_processedAt :: string

record button =
  button_value :: string
  button_disabled :: bool

text \<open>
  The tool, the elements it looks up (for an element of which one property is written,
  the field holds that property; the statistics, the analysis and the history list
  hold the values spliced into their markup), the events handed to
  \<^verbatim>\<open>window.Analytics\<close> when the page has it, the storage and the requests sent.
\<close>

record ocr =
  ocr_apiUrl :: string
  maxFileSize :: int
  supportedTypes :: "string list"
  processingHistory :: "history_item list"
  error_section :: "string option"
  error_message :: "string option"
  results_section :: "string option"
  extracted_text :: "string option"
  processing_stats :: "ocr_result option option"
  detailed_analysis :: "string option"
  analysis_content :: "json option option"
  processing_history :: "history_item list option"
  submit_button :: "button option"
  url_submit_button :: "button option"
  tracked :: "string list option"
  ocr_storage :: store
  ocr_requests :: "request list"

definition showError_ocr :: "string \<Rightarrow> ocr \<Rightarrow> ocr" where
  "showError_ocr message s =
     (if error_section s \<noteq> None \<and> error_message s \<noteq> None
      then s\<lparr>error_message := Some message, error_section := Some ''block''\<rparr>
      else s)"

definition hideError :: "ocr \<Rightarrow> ocr" where
  "hideError s = s\<lparr>error_section := setDisplay ''none'' (error_section s)\<rparr>"

definition hideResults :: "ocr \<Rightarrow> ocr" where
  "hideResults s = s\<lparr>results_section := setDisplay ''none'' (results_section s)\<rparr>"

definition showProcessing :: "bool \<Rightarrow> ocr \<Rightarrow> ocr" where
  "showProcessing on s =
     (if on
      then s\<lparr>submit_button :=
               map_option (\<lambda>b. \<lparr>button_value = ''Processing...'', button_disabled = True\<rparr>)
                 (submit_button s),
             url_submit_button :=
               map_option (\<lambda>b. \<lparr>button_value = ''Processing...'', button_disabled = True\<rparr>)
                 (url_submit_button s)\<rparr>
      else s\<lparr>submit_button :=
               map_option (\<lambda>b. \<lparr>button_value = ''Process Document'', button_disabled = False\<rparr>)
                 (submit_button s),
             url_submit_button :=
               map_option (\<lambda>b. \<lparr>button_value = ''Process'', button_disabled = False\<rparr>)
                 (url_submit_button s)\<rparr>)"

text \<open>
  \<^verbatim>\<open>validateFile\<close>. The limit in the message is \<^verbatim>\<open>maxFileSize / (1024 * 1024)\<close>, a
  whole number for the limit of the constructor.
\<close>

definition validateFile :: "upload_file \<Rightarrow> ocr \<Rightarrow> bool \<times> ocr" where
  "validateFile f s =
     (if file_size f > maxFileSize s
      then (False,
            showError_ocr (''File size exceeds '' @ intToString (maxFileSize s div (1024 * 1024))
                           @ ''MB limit'') s)
      else if file_type f \<notin> set (supportedTypes s)
      then (False,
            showError_ocr ''Unsupported file type. Please use JPEG, PNG, WebP, TIFF, or PDF files.'' s)
      else (True, s))"

definition track :: "string \<Rightarrow> ocr \<Rightarrow> ocr" where
  "track eventType s = s\<lparr>tracked := map_option (\<lambda>evs. evs @ [eventType]) (tracked s)\<rparr>"

text \<open>
  \<^verbatim>\<open>displayResults\<close>: the last statement, \<^verbatim>\<open>resultsSection.scrollIntoView\<close>, throws
  on a page without the results section.
\<close>

definition displayResults :: "ocr_result \<Rightarrow> ocr \<Rightarrow> unit result \<times> ocr" where
  "displayResults res s =
     (let s1 = s\<lparr>results_section := setDisplay ''block'' (results_section s),
                 extracted_text :=
                   map_option (\<lambda>_. case result_extractedText res of None \<Rightarrow> [] | Some t \<Rightarrow> t)
                     (extracted_text s),
                 processing_stats := map_option (\<lambda>_. Some res) (processing_stats s)\<rparr>;
          s2 = (if truthy (result_details res) \<and> detailed_analysis s1 \<noteq> None
                then s1\<lparr>analysis_content :=
                          map_option (\<lambda>_. result_details res) (analysis_content s1),
                        detailed_analysis := Some ''block''\<rparr>
                else s1)
      in if results_section s2 = None then (Threw TypeError, s2) else (Returned (), s2))"

definition encodeItem :: "history_item \<Rightarrow> json" where
  "encodeItem i =
     object [(''id'', Some (JNum (item_id i))),
             (''filename'', Some (JStr (item_filename i))),
             (''extractedText'', Some (JStr (item_extractedText i))),
             (''confidence'', map_option JNum (item_confidence i)),
             (''wordCount'', map_option JNum (item_wordCount i)),
             (''processedAt'', Some (JStr (item_processedAt i)))]"

definition saveProcessingHistory :: "platform \<Rightarrow> ocr \<Rightarrow> ocr" where
  "saveProcessingHistory P s =
     s\<lparr>ocr_storage :=
         setItem ''ocr_processing_history''
           (JSON_stringify P (JArr (map encodeItem (processingHistory s)))) (ocr_storage s)\<rparr>"

definition renderProcessingHistory :: "ocr \<Rightarrow> ocr" where
  "renderProcessingHistory s =
     s\<lparr>processing_history := map_option (\<lambda>_. processingHistory s) (processing_history s)\<rparr>"

text \<open>
  \<^verbatim>\<open>addToHistory\<close>: \<^verbatim>\<open>result.extractedText.substring\<close> throws on a result without
  extracted text.
\<close>

definition addToHistory :: "platform \<Rightarrow> int \<Rightarrow> ocr_result \<Rightarrow> ocr \<Rightarrow> unit result \<times> ocr" where
  "addToHistory P now res s =
     (case result_extractedText res of
        None \<Rightarrow> (Threw TypeError, s)
      | Some t \<Rightarrow>
          let historyItem =
                \<lparr>item_id = now,
                 item_filename = (case result_filename res of
                                    None \<Rightarrow> ''URL Processing''
                                  | Some n \<Rightarrow> if n = [] then ''URL Processing'' else n),
                 item_extractedText = take 100 t @ ''...'',
                 item_confidence = result_confidence res,
                 item_wordCount = result_wordCount res,
                 item_processedAt = toISOString P now\<rparr>;
              s1 = s\<lparr>processingHistory := slice (historyItem # processingHistory s) 0 10\<rparr>
          in (Returned (), renderProcessingHistory (saveProcessingHistory P s1)))"

definition uploadRequest :: "ocr \<Rightarrow> request" where
  "uploadRequest s = \<lparr>url = ocr_apiUrl s @ ''/api/ocr/extract'', http_method = ''POST'', payload = None\<rparr>"

text \<open>What \<^verbatim>\<open>handleFileUpload\<close> does with the parsed body of the response.\<close>

definition processResult :: "platform \<Rightarrow> int \<Rightarrow> ocr_result \<Rightarrow> ocr \<Rightarrow> unit result \<times> ocr" where
  "processResult P now res s =
     (if result_success res
      then (case displayResults res s of
              (Threw e, s1) \<Rightarrow> (Threw e, s1)
            | (Returned u, s1) \<Rightarrow> addToHistory P now res s1)
      else (Returned (),
            showError_ocr (case result_message res of
                             None \<Rightarrow> ''Processing failed''
                           | Some m \<Rightarrow> if m = [] then ''Processing failed'' else m) s))"

definition uploadFailed :: "ocr \<Rightarrow> ocr" where
  "uploadFailed s = track ''error'' (showError_ocr ''Failed to process document. Please try again.'' s)"

text \<open>
  \<^verbatim>\<open>handleFileUpload\<close>: \<open>chosen\<close> is \<^verbatim>\<open>formData.get('file')\<close>, and the request comes
  back \<open>elapsed\<close> milliseconds after the call with the outcome \<open>net\<close>. The form data is
  the body of the request; the model keeps its address and method.
\<close>

definition handleFileUpload :: "platform \<Rightarrow> int \<Rightarrow> int \<Rightarrow> upload_file option \<Rightarrow> ocr_result fetched \<Rightarrow> ocr \<Rightarrow> ocr" where
  "handleFileUpload P now elapsed chosen net s =
     (case chosen of
        None \<Rightarrow> s
      | Some f \<Rightarrow>
          (case validateFile f s of
             (False, s1) \<Rightarrow> s1
           | (True, s1) \<Rightarrow>
               let s2 = hideError (hideResults (showProcessing True s1));
                   s3 = track ''ocr_file_upload'' s2;
                   s4 = s3\<lparr>ocr_requests := ocr_requests s3 @ [uploadRequest s3]\<rparr>
               in showProcessing False
                    (case net of
                       Rejected \<Rightarrow> uploadFailed s4
                     | Resolved r \<Rightarrow>
                         (case body r of
                            None \<Rightarrow> uploadFailed s4
                          | Some res \<Rightarrow>
                              (case processResult P (now + elapsed) res s4 of
                                 (Threw e, s5) \<Rightarrow> uploadFailed s5
                               | (Returned u, s5) \<Rightarrow> s5)))))"

text \<open>
  \<^verbatim>\<open>loadProcessingHistory\<close>, called by the constructor: the stored history, or the
  empty list for a missing value and for every error caught. The model reads values of
  the shape that \<^verbatim>\<open>saveProcessingHistory\<close> writes; a stored value of another shape
  is treated like one that does not parse.
\<close>

definition decodeNumber :: "json option \<Rightarrow> int option option" where
  "decodeNumber v = (case v of None \<Rightarrow> Some None | Some (JNum n) \<Rightarrow> Some (Some n) | Some _ \<Rightarrow> None)"

definition decodeItem :: "json \<Rightarrow> history_item option" where
  "decodeItem j =
     (case j of
        JObj kvs \<Rightarrow>
          (case (map_of kvs ''id'', map_of kvs ''filename'', map_of kvs ''extractedText'',
                 decodeNumber (map_of kvs ''confidence''), decodeNumber (map_of kvs ''wordCount''),
                 map_of kvs ''processedAt'') of
             (Some (JNum i), Some (JStr fn), Some (JStr tx), Some cf, Some wc, Some (JStr pa)) \<Rightarrow>
               Some \<lparr>item_id = i, item_filename = fn, item_extractedText = tx,
                     item_confidence = cf, item_wordCount = wc, item_processedAt = pa\<rparr>
           | _ \<Rightarrow> None)
      | _ \<Rightarrow> None)"

fun decodeItems :: "json list \<Rightarrow> history_item list option" where
  "decodeItems [] = Some []"
| "decodeItems (j # js) =
     (case decodeItem j of
        None \<Rightarrow> None
      | Some i \<Rightarrow> map_option ((#) i) (decodeItems js))"

definition loadProcessingHistory :: "platform \<Rightarrow> store \<Rightarrow> history_item list \<times> store" where
  "loadProcessingHistory P st =
     (let (saved, st1) = getItem ''ocr_processing_history'' st
      in case saved of
           None \<Rightarrow> ([], st1)
         | Some t \<Rightarrow>
             if t = [] then ([], st1)
             else
               (case JSON_parse P t of
                  Some (JArr js) \<Rightarrow>
                    (case decodeItems js of None \<Rightarrow> ([], st1) | Some is \<Rightarrow> (is, st1))
                | _ \<Rightarrow> ([], st1)))"

text \<open>
  The constructor on a page \<open>page\<close> (of which it takes the elements, the analytics and
  the storage), up to the request for the languages that \<^verbatim>\<open>init\<close> starts.
\<close>

definition newOCRTool :: "platform \<Rightarrow> ocr \<Rightarrow> ocr" where
  "newOCRTool P page =
     (let (history, st) = loadProcessingHistory P (ocr_storage page)
      in renderProcessingHistory
           (page\<lparr>ocr_apiUrl := ''https://api.vikasyadav.live'',
                 maxFileSize := 10 * 1024 * 1024,
                 supportedTypes := [''image/jpeg'', ''image/png'', ''image/webp'', ''image/tiff'',
                                    ''application/pdf''],
                 processingHistory := history,
                 ocr_storage := st\<rparr>))"


subsection \<open>Validation of an uploaded file\<close>

lemma showError_ocr_shown:
  "error_section s \<noteq> None \<Longrightarrow> error_message s \<noteq> None \<Longrightarrow>
   error_message (showError_ocr m s) = Some m \<and> error_section (showError_ocr m s) = Some ''block''"
  by (simp add: showError_ocr_def)

lemma showError_ocr_requests: "ocr_requests (showError_ocr m s) = ocr_requests s"
  by (simp add: showError_ocr_def)

lemma validateFile_rejects:
  assumes "\<not> fst (validateFile f s)"
  shows "\<exists>msg. msg \<noteq> [] \<and> snd (validateFile f s) = showError_ocr msg s"
  using assms by (auto simp: validateFile_def split: if_splits)

lemma handleFileUpload_rejected:
  "\<not> fst (validateFile f s) \<Longrightarrow>
   handleFileUpload P now elapsed (Some f) net s = snd (validateFile f s)"
  by (cases "validateFile f s") (auto simp: handleFileUpload_def)

lemma handleFileUpload_accepted:
  assumes "fst (validateFile f s)"
  shows "ocr_requests (handleFileUpload P now elapsed (Some f) net s)
           = ocr_requests s @ [uploadRequest s]"
proof -
  have v: "validateFile f s = (True, s)"
    using assms by (auto simp: validateFile_def split: if_splits)
  have frame: "ocr_requests (showProcessing b x) = ocr_requests x"
    "ocr_requests (uploadFailed x) = ocr_requests x"
    "ocr_requests (snd (processResult P t res x)) = ocr_requests x" for b x t res
    by (auto simp: showProcessing_def uploadFailed_def track_def showError_ocr_def
        processResult_def displayResults_def addToHistory_def renderProcessingHistory_def
        saveProcessingHistory_def Let_def split: prod.splits result.splits option.splits)
  have frame': "ocr_requests y = ocr_requests x" if "processResult P t res x = (r, y)"
    for t res x r y
    using frame(3)[of t res x] that by simp
  define s3 where "s3 = track ''ocr_file_upload'' (hideError (hideResults (showProcessing True s)))"
  define s4 where "s4 = s3\<lparr>ocr_requests := ocr_requests s3 @ [uploadRequest s3]\<rparr>"
  have s4: "ocr_requests s4 = ocr_requests s @ [uploadRequest s]"
    by (simp add: s4_def s3_def uploadRequest_def track_def hideError_def hideResults_def
          showProcessing_def)
  have run: "handleFileUpload P now elapsed (Some f) net s =
      showProcessing False
        (case net of
           Rejected \<Rightarrow> uploadFailed s4
         | Resolved r \<Rightarrow>
             (case body r of
                None \<Rightarrow> uploadFailed s4
              | Some res \<Rightarrow>
                  (case processResult P (now + elapsed) res s4 of
                     (Threw e, s5) \<Rightarrow> uploadFailed s5
                   | (Returned u, s5) \<Rightarrow> s5)))"
    unfolding s4_def s3_def handleFileUpload_def Let_def by (simp add: v)
  show ?thesis
    unfolding run
    by (auto simp: frame(1,2) s4 dest: frame'
        split: fetched.splits option.splits prod.splits result.splits)
qed

text \<open>
  Claim C10, as the code has it. With the limit and the types of the constructor,
  \<^verbatim>\<open>validateFile\<close> returns true if and only if the size of the file is at most
  10485760 bytes and its type is one of the five supported types. For a rejected file
  it returns false and calls \<^verbatim>\<open>showError\<close> with a message, which is displayed when the
  page has both elements \<^verbatim>\<open>error-section\<close> and \<^verbatim>\<open>error-message\<close>; and
  \<^verbatim>\<open>handleFileUpload\<close> sends no request for a rejected file.
\<close>

theorem validateFile_accepts:
  assumes "maxFileSize s = 10 * 1024 * 1024"
    and "supportedTypes s = [''image/jpeg'', ''image/png'', ''image/webp'', ''image/tiff'',
                             ''application/pdf'']"
  shows "(fst (validateFile f s) \<longleftrightarrow>
            file_size f \<le> 10485760
          \<and> file_type f \<in> {''image/jpeg'', ''image/png'', ''image/webp'', ''image/tiff'',
                             ''application/pdf''})
       \<and> (\<not> fst (validateFile f s) \<longrightarrow>
            (\<exists>msg. msg \<noteq> [] \<and> snd (validateFile f s) = showError_ocr msg s
                 \<and> (error_section s \<noteq> None \<and> error_message s \<noteq> None \<longrightarrow>
                      error_message (snd (validateFile f s)) = Some msg
                    \<and> error_section (snd (validateFile f s)) = Some ''block''))
          \<and> ocr_requests (handleFileUpload P now elapsed (Some f) net s) = ocr_requests s)"
proof (intro conjI impI)
  show "fst (validateFile f s) \<longleftrightarrow>
            file_size f \<le> 10485760
          \<and> file_type f \<in> {''image/jpeg'', ''image/png'', ''image/webp'', ''image/tiff'',
                             ''application/pdf''}"
    by (simp add: validateFile_def assms)
next
  assume r: "\<not> fst (validateFile f s)"
  from validateFile_rejects[OF r] obtain msg where
    m: "msg \<noteq> []" and e: "snd (validateFile f s) = showError_ocr msg s"
    by blast
  have "error_section s \<noteq> None \<and> error_message s \<noteq> None \<longrightarrow>
          error_message (snd (validateFile f s)) = Some msg
        \<and> error_section (snd (validateFile f s)) = Some ''block''"
    unfolding e using showError_ocr_shown[of s msg] by blast
  with m e show "\<exists>msg. msg \<noteq> [] \<and> snd (validateFile f s) = showError_ocr msg s
                 \<and> (error_section s \<noteq> None \<and> error_message s \<noteq> None \<longrightarrow>
                      error_message (snd (validateFile f s)) = Some msg
                    \<and> error_section (snd (validateFile f s)) = Some ''block'')"
    by blast
  show "ocr_requests (handleFileUpload P now elapsed (Some f) net s) = ocr_requests s"
    unfolding handleFileUpload_rejected[OF r] e by (rule showError_ocr_requests)
qed


definition ocrPage :: ocr where
  "ocrPage =
     \<lparr>ocr_apiUrl = [], maxFileSize = 0, supportedTypes = [], processingHistory = [],
      error_section = Some ''none'', error_message = Some [],
      results_section = Some ''none'', extracted_text = Some [],
      processing_stats = Some None, detailed_analysis = Some ''none'',
      analysis_content = Some None, processing_history = Some [],
      submit_button = Some \<lparr>button_value = ''Process Document'', button_disabled = False\<rparr>,
      url_submit_button = Some \<lparr>button_value = ''Process'', button_disabled = False\<rparr>,
      tracked = Some [], ocr_storage = emptyStore, ocr_requests = []\<rparr>"

definition pngFile :: "int \<Rightarrow> upload_file" where
  "pngFile n = \<lparr>file_name = ''scan.png'', file_size = n, file_type = ''image/png''\<rparr>"

lemma newOCRTool_limits:
  "maxFileSize (newOCRTool P page) = 10 * 1024 * 1024"
  "supportedTypes (newOCRTool P page)
     = [''image/jpeg'', ''image/png'', ''image/webp'', ''image/tiff'', ''application/pdf'']"
  by (simp_all add: newOCRTool_def renderProcessingHistory_def split_def Let_def)

lemma newOCRTool_page:
  "error_section (newOCRTool P page) = error_section page"
  "error_message (newOCRTool P page) = error_message page"
  "ocr_requests (newOCRTool P page) = ocr_requests page"
  by (simp_all add: newOCRTool_def renderProcessingHistory_def split_def Let_def)

theorem validateFile_accepts_witness:
  "maxFileSize (newOCRTool examplePlatform ocrPage) = 10 * 1024 * 1024
   \<and> supportedTypes (newOCRTool examplePlatform ocrPage)
       = [''image/jpeg'', ''image/png'', ''image/webp'', ''image/tiff'', ''application/pdf'']
   \<and> fst (validateFile (pngFile 10485760) (newOCRTool examplePlatform ocrPage))
   \<and> \<not> fst (validateFile (pngFile 10485761) (newOCRTool examplePlatform ocrPage))
   \<and> error_section (newOCRTool examplePlatform ocrPage) \<noteq> None
   \<and> error_message (newOCRTool examplePlatform ocrPage) \<noteq> None
   \<and> (\<exists>msg. msg \<noteq> []
          \<and> error_message (snd (validateFile (pngFile 10485761) (newOCRTool examplePlatform ocrPage)))
              = Some msg)
   \<and> ocr_requests (handleFileUpload examplePlatform 0 5 (Some (pngFile 10485761)) Rejected
                      (newOCRTool examplePlatform ocrPage)) = []"
proof -
  note lim = newOCRTool_limits[of examplePlatform ocrPage]
  have pg: "error_section (newOCRTool examplePlatform ocrPage) \<noteq> None"
    "error_message (newOCRTool examplePlatform ocrPage) \<noteq> None"
    "ocr_requests (newOCRTool examplePlatform ocrPage) = []"
    by (simp_all add: newOCRTool_page ocrPage_def)
  from validateFile_accepts[OF lim, where f="pngFile 10485760", THEN conjunct1]
  have a: "fst (validateFile (pngFile 10485760) (newOCRTool examplePlatform ocrPage))"
    by (simp add: pngFile_def)
  from validateFile_accepts[OF lim, where f="pngFile 10485761", THEN conjunct1]
  have b: "\<not> fst (validateFile (pngFile 10485761) (newOCRTool examplePlatform ocrPage))"
    by (simp add: pngFile_def)
  from validateFile_accepts[OF lim, where f="pngFile 10485761" and P=examplePlatform and now=0
      and elapsed=5 and net=Rejected, THEN conjunct2] b pg
  have c: "(\<exists>msg. msg \<noteq> []
          \<and> error_message (snd (validateFile (pngFile 10485761) (newOCRTool examplePlatform ocrPage)))
              = Some msg)
     \<and> ocr_requests (handleFileUpload examplePlatform 0 5 (Some (pngFile 10485761)) Rejected
                      (newOCRTool examplePlatform ocrPage)) = []"
    by auto
  from lim pg a b c show ?thesis by blast
qed

theorem validateFile_message_not_shown:
  "maxFileSize (newOCRTool examplePlatform (ocrPage\<lparr>error_section := None\<rparr>)) = 10 * 1024 * 1024
   \<and> \<not> fst (validateFile (pngFile 10485761)
               (newOCRTool examplePlatform (ocrPage\<lparr>error_section := None\<rparr>)))
   \<and> error_message (newOCRTool examplePlatform (ocrPage\<lparr>error_section := None\<rparr>)) = Some []
   \<and> error_message (snd (validateFile (pngFile 10485761)
               (newOCRTool examplePlatform (ocrPage\<lparr>error_section := None\<rparr>)))) = Some []"
proof -
  have e: "error_section (newOCRTool examplePlatform (ocrPage\<lparr>error_section := None\<rparr>)) = None"
    "error_message (newOCRTool examplePlatform (ocrPage\<lparr>error_section := None\<rparr>)) = Some []"
    by (simp_all add: newOCRTool_page ocrPage_def)
  show ?thesis
    by (simp add: validateFile_def newOCRTool_limits pngFile_def showError_ocr_def e)
qed


text \<open>
  \<^verbatim>\<open>handleUrlProcessing\<close>: \<open>imageUrl\<close> is the value of the element \<^verbatim>\<open>image-url\<close> and
  \<open>includeDetails\<close> the state of the box \<^verbatim>\<open>include-details\<close>; on a page that lacks one
  of them the property read throws, the first before anything else is done, the second
  inside the \<^verbatim>\<open>try\<close>.
\<close>

definition urlRequest :: "string \<Rightarrow> bool \<Rightarrow> ocr \<Rightarrow> request" where
  "urlRequest imageUrl includeDetails s =
     \<lparr>url = ocr_apiUrl s @ ''/api/ocr/extract-url'',
      http_method = ''POST'',
      payload = Some (object [(''imageUrl'', Some (JStr imageUrl)),
                              (''includeDetails'', Some (JBool includeDetails))])\<rparr>"

definition urlFailed :: "ocr \<Rightarrow> ocr" where
  "urlFailed s = showError_ocr ''Failed to process image URL. Please try again.'' s"

definition handleUrlProcessing :: "platform \<Rightarrow> int \<Rightarrow> int \<Rightarrow> string option \<Rightarrow> bool option \<Rightarrow> ocr_result fetched \<Rightarrow> ocr \<Rightarrow> unit result \<times> ocr" where
  "handleUrlProcessing P now elapsed imageUrlInput includeDetailsBox net s =
     (case imageUrlInput of
        None \<Rightarrow> (Threw TypeError, s)
      | Some v \<Rightarrow>
          let imageUrl = trim v
          in if imageUrl = [] then (Returned (), s)
             else
               let s2 = hideError (hideResults (showProcessing True s))
               in (Returned (),
                   showProcessing False
                     (case includeDetailsBox of
                        None \<Rightarrow> urlFailed s2
                      | Some includeDetails \<Rightarrow>
                          let s3 = s2\<lparr>ocr_requests :=
                                        ocr_requests s2 @ [urlRequest imageUrl includeDetails s2]\<rparr>
                          in (case net of
                                Rejected \<Rightarrow> urlFailed s3
                              | Resolved r \<Rightarrow>
                                  (case body r of
                                     None \<Rightarrow> urlFailed s3
                                   | Some res \<Rightarrow>
                                       (case processResult P (now + elapsed) res s3 of
                                          (Threw e, s4) \<Rightarrow> urlFailed s4
                                        | (Returned u, s4) \<Rightarrow> s4))))))"

section \<open>The application controller\<close>

text \<open>
  Of \<^verbatim>\<open>VikasYadavApp\<close>: the authentication state, the \<^verbatim>\<open>display\<close> styles of the
  elements of the classes \<^verbatim>\<open>auth-required\<close> and \<^verbatim>\<open>guest-only\<close>, the storage, and the
  requests sent with the \<^verbatim>\<open>Authorization\<close> header they carry.
\<close>

record auth_request = request +
  authorization :: "string option"

record app =
  app_apiUrl :: string
  isAuthenticated :: bool
  currentUser :: "json option"
  auth_required :: "string list"
  guest_only :: "string list"
  app_storage :: store
  app_requests :: "auth_request list"

definition updateUIForAuthenticatedUser :: "app \<Rightarrow> app" where
  "updateUIForAuthenticatedUser s =
     s\<lparr>auth_required := map (\<lambda>_. ''block'') (auth_required s),
       guest_only := map (\<lambda>_. ''none'') (guest_only s)\<rparr>"

definition forgetToken :: "app \<Rightarrow> app" where
  "forgetToken s = s\<lparr>app_storage := removeItem ''auth_token'' (app_storage s)\<rparr>"

definition validateToken :: "string \<Rightarrow> json fetched \<Rightarrow> app \<Rightarrow> app" where
  "validateToken token net s =
     (let s1 = s\<lparr>app_requests := app_requests s @
                  [\<lparr>url = app_apiUrl s @ ''/api/auth/me'', http_method = ''GET'', payload = None,
                    authorization = Some (''Bearer '' @ token)\<rparr>]\<rparr>
      in case net of
           Rejected \<Rightarrow> forgetToken s1
         | Resolved r \<Rightarrow>
             if ok r
             then (case body r of
                     None \<Rightarrow> forgetToken s1
                   | Some data \<Rightarrow>
                       let s2 = s1\<lparr>isAuthenticated := True\<rparr>
                       in (case getProp (Some data) ''user'' of
                             Threw e \<Rightarrow> forgetToken s2
                           | Returned user \<Rightarrow>
                               updateUIForAuthenticatedUser (s2\<lparr>currentUser := user\<rparr>)))
             else forgetToken s1)"

definition checkAuthentication :: "json fetched \<Rightarrow> app \<Rightarrow> app" where
  "checkAuthentication net s =
     (let (token, st) = getItem ''auth_token'' (app_storage s);
          s1 = s\<lparr>app_storage := st\<rparr>
      in case token of
           None \<Rightarrow> s1
         | Some t \<Rightarrow> if t = [] then s1 else validateToken t net s1)"

text \<open>
  \<^verbatim>\<open>fetchWithAuth(url, options)\<close>, up to the promise of \<^verbatim>\<open>fetch\<close> that it returns:
  \<open>given\<close> is an \<^verbatim>\<open>Authorization\<close> header among the options.
\<close>

definition fetchWithAuth :: "string \<Rightarrow> string \<Rightarrow> json option \<Rightarrow> string option \<Rightarrow> app \<Rightarrow> app" where
  "fetchWithAuth u m pl given s =
     (let (token, st) = getItem ''auth_token'' (app_storage s);
          header = (case token of
                      None \<Rightarrow> given
                    | Some t \<Rightarrow> if t = [] then given else Some (''Bearer '' @ t))
      in s\<lparr>app_storage := st,
           app_requests := app_requests s @
             [\<lparr>url = u, http_method = m, payload = pl, authorization = header\<rparr>]\<rparr>)"

section \<open>The keys of the local storage\<close>

text \<open>The keys named by the interface description, and the keys the scripts use.\<close>

definition listedKey :: "string \<Rightarrow> bool" where
  "listedKey k =
     (startsWith k ''chat_history_''
      \<or> k \<in> set [''scholar_stats_cache'', ''blog_rotation_index'', ''blog_last_rotation'',
                  ''ocr_processing_history'', ''auth_token''])"

definition usedKey :: "string \<Rightarrow> bool" where
  "usedKey k = (listedKey k \<or> startsWith k ''blog_post_'')"

text \<open>From \<open>s\<close> to \<open>s'\<close> the storage has been handed keys the scripts use, and no other.\<close>

definition onlyUsed :: "store \<Rightarrow> store \<Rightarrow> bool" where
  "onlyUsed s s' = (accessed s' = accessed s @ touched s s' \<and> list_all usedKey (touched s s'))"

lemma onlyUsedI:
  "accessed s' = accessed s @ ks \<Longrightarrow> list_all usedKey ks \<Longrightarrow> onlyUsed s s'"
  by (simp add: onlyUsed_def touched_def)

lemma onlyUsed_refl [simp]: "onlyUsed s s"
  by (simp add: onlyUsed_def touched_def)

lemma onlyUsed_log [simp]: "onlyUsed s (s\<lparr>items := m\<rparr>)"
  by (simp add: onlyUsed_def touched_def)

lemma onlyUsed_iff:
  "onlyUsed s s' \<longleftrightarrow> (\<exists>ks. accessed s' = accessed s @ ks \<and> list_all usedKey ks)"
proof
  assume "onlyUsed s s'"
  then show "\<exists>ks. accessed s' = accessed s @ ks \<and> list_all usedKey ks"
    unfolding onlyUsed_def by (intro exI[of _ "touched s s'"])
next
  assume "\<exists>ks. accessed s' = accessed s @ ks \<and> list_all usedKey ks"
  then obtain ks where "accessed s' = accessed s @ ks" "list_all usedKey ks" by blast
  then show "onlyUsed s s'" by (rule onlyUsedI)
qed

lemma onlyUsed_trans: "onlyUsed s s' \<Longrightarrow> onlyUsed s' s'' \<Longrightarrow> onlyUsed s s''"
  unfolding onlyUsed_iff by (elim exE conjE) (simp add: exI[of _ "_ @ _"])

lemma usedKey_fixed [simp]:
  "usedKey ''scholar_stats_cache''" "usedKey ''blog_rotation_index''"
  "usedKey ''blog_last_rotation''" "usedKey ''ocr_processing_history''" "usedKey ''auth_token''"
  by (simp_all add: usedKey_def listedKey_def)

lemma usedKey_prefixed [simp]:
  "usedKey (''chat_history_'' @ t)" "usedKey (''blog_post_'' @ t)"
  by (simp_all add: usedKey_def listedKey_def startsWith_def)

lemma onlyUsed_getItem: "usedKey k \<Longrightarrow> onlyUsed s (snd (getItem k s))"
  by (simp add: onlyUsed_def touched_def getItem_def)

lemma onlyUsed_setItem: "usedKey k \<Longrightarrow> onlyUsed s (setItem k v s)"
  by (simp add: onlyUsed_def touched_def setItem_def)

lemma onlyUsed_removeItem: "usedKey k \<Longrightarrow> onlyUsed s (removeItem k s)"
  by (simp add: onlyUsed_def touched_def removeItem_def)

end
